theory Spec2Isabelle
  imports Main "HOL-Library.Char_ord" "HOL-Library.List_Lexorder" "HOL-Library.Multiset"
begin

section \<open>The command-line front end of esbuild (pkg/cli/cli_impl.go)\<close>

text \<open>
  The development embeds the option parser, the mode selection, the serve-option parser
  and the post-build writers of \<^verbatim>\<open>pkg/cli/cli_impl.go\<close>. Go strings are byte
  sequences and are modelled as \<^typ>\<open>string\<close>; a struct is a record; a pointer that
  may be nil is an \<^typ>\<open>'a option\<close>; a returned error and a run-time panic are values
  of a failure type.
\<close>

subsection \<open>Strings (Go's strings package, on the calls the file makes)\<close>

definition HasPrefix :: "string \<Rightarrow> string \<Rightarrow> bool" where
  "HasPrefix s p = (take (length p) s = p)"

text \<open>\<^verbatim>\<open>strings.IndexByte\<close>: the index of the first occurrence; Go's \<^verbatim>\<open>-1\<close> is \<^term>\<open>None\<close>.\<close>

fun IndexByte :: "string \<Rightarrow> char \<Rightarrow> nat option" where
  "IndexByte [] c = None"
| "IndexByte (x # xs) c = (if x = c then Some 0 else map_option Suc (IndexByte xs c))"

text \<open>\<^verbatim>\<open>strings.Split\<close> with a separator of one byte (every call site passes one).\<close>

fun Split :: "string \<Rightarrow> char \<Rightarrow> string list" where
  "Split [] c = [[]]"
| "Split (x # xs) c =
     (if x = c then [] # Split xs c
      else (case Split xs c of [] \<Rightarrow> [[x]] | w # ws \<Rightarrow> (x # w) # ws))"

fun Join :: "string list \<Rightarrow> string \<Rightarrow> string" where
  "Join [] sep = []"
| "Join [x] sep = x"
| "Join (x # y # ys) sep = x @ sep @ Join (y # ys) sep"

text \<open>The slice \<^verbatim>\<open>arg[len(p):]\<close>, which the parser takes when \<^verbatim>\<open>p\<close> is a prefix of \<^verbatim>\<open>arg\<close>.\<close>

definition after :: "string \<Rightarrow> string \<Rightarrow> string" where
  "after arg p = drop (length p) arg"

definition splitWithEmptyCheck :: "string \<Rightarrow> char \<Rightarrow> string list" where
  "splitWithEmptyCheck s sep = (if s = [] then [] else Split s sep)"

subsection \<open>Integers (Go's strconv package)\<close>

definition isDigit :: "char \<Rightarrow> bool" where
  "isDigit c = (CHR ''0'' \<le> c \<and> c \<le> CHR ''9'')"

definition digitVal :: "char \<Rightarrow> nat" where
  "digitVal c = of_char c - of_char CHR ''0''"

definition decimal :: "string \<Rightarrow> nat" where
  "decimal ds = foldl (\<lambda>n c. 10 * n + digitVal c) 0 ds"

text \<open>
  \<^verbatim>\<open>strconv.ParseInt(s, 10, bitSize)\<close>: an optional sign, then one or more decimal
  digits; a value outside the signed range of \<open>bitSize\<close> bits is a range error. Both
  errors are \<^term>\<open>None\<close>.
\<close>

definition ParseInt :: "string \<Rightarrow> nat \<Rightarrow> int option" where
  "ParseInt s bitSize =
     (case s of
        [] \<Rightarrow> None
      | c # cs \<Rightarrow>
          (let neg = (c = CHR ''-'');
               ds = (if c = CHR ''+'' \<or> c = CHR ''-'' then cs else s)
           in if ds = [] \<or> \<not> list_all isDigit ds then None
              else let un = decimal ds; cutoff = 2 ^ (bitSize - 1)
                   in if \<not> neg \<and> un \<ge> cutoff then None
                      else if neg \<and> un > cutoff then None
                      else Some (if neg then - int un else int un)))"

text \<open>\<^verbatim>\<open>strconv.Atoi\<close>, with Go's \<^verbatim>\<open>int\<close> of 64 bits.\<close>

definition Atoi :: "string \<Rightarrow> int option" where
  "Atoi s = ParseInt s 64"

subsection \<open>The enumerations of pkg/api\<close>

text \<open>
  The option structs and their enumerations are declared in \<^verbatim>\<open>pkg/api\<close>. Each
  enumeration is a datatype of the constants the parser names, with the zero value of
  the Go type as its first constructor.
\<close>

datatype MangleQuoted = MangleQuotedDefault | MangleQuotedFalse | MangleQuotedTrue
datatype Drop = DropConsole | DropDebugger
datatype LegalComments = LegalCommentsDefault | LegalCommentsNone | LegalCommentsInline
  | LegalCommentsEndOfFile | LegalCommentsLinked | LegalCommentsExternal
datatype Charset = CharsetDefault | CharsetASCII | CharsetUTF8
datatype TreeShaking = TreeShakingDefault | TreeShakingFalse | TreeShakingTrue
datatype SourceMap = SourceMapNone | SourceMapInline | SourceMapLinked | SourceMapExternal
  | SourceMapInlineAndExternal
datatype SourcesContent = SourcesContentInclude | SourcesContentExclude
datatype AbsPaths = CodeAbsPath | LogAbsPath | MetafileAbsPath
datatype Platform = PlatformDefault | PlatformBrowser | PlatformNode | PlatformNeutral
datatype Format = FormatDefault | FormatIIFE | FormatCommonJS | FormatESModule
datatype Packages = PackagesDefault | PackagesBundle | PackagesExternal
datatype JSX = JSXTransform | JSXPreserve | JSXAutomatic
datatype StderrColor = ColorIfTerminal | ColorNever | ColorAlways
datatype LogLevel = LogLevelSilent | LogLevelVerbose | LogLevelDebug | LogLevelInfo
  | LogLevelWarning | LogLevelError
datatype Target = DefaultTarget | ESNext | ES5 | ES2015 | ES2016 | ES2017 | ES2018 | ES2019
  | ES2020 | ES2021 | ES2022 | ES2023 | ES2024

record 'e Engine =
  Name :: 'e
  Version :: string

record EntryPoint =
  InputPath :: string
  OutputPath :: string

record 'l StdinOptions =
  Contents :: string
  ResolveDir :: string
  Sourcefile :: string
  Loader :: 'l

text \<open>
  \<^verbatim>\<open>Drop\<close> and \<^verbatim>\<open>AbsPaths\<close> are bit sets (\<^verbatim>\<open>|=\<close> adds a bit): sets of
  flags. A Go map is a partial function; \<^verbatim>\<open>OutExtension\<close>, \<^verbatim>\<open>Alias\<close> and
  \<^verbatim>\<open>MangleCache\<close>, which the code tests for nil, are optional maps. A mangle cache
  maps a name to its mangled name or to \<^verbatim>\<open>false\<close>.
\<close>

type_synonym mangleCache = "string \<rightharpoonup> string option"

record ('l, 'e) BuildOptions =
  Color :: StderrColor
  LogLevel :: LogLevel
  LogLimit :: int
  LogOverride :: "string \<rightharpoonup> LogLevel"
  AbsPaths :: "AbsPaths set"
  Sourcemap :: SourceMap
  SourceRoot :: string
  SourcesContent :: SourcesContent
  Target :: Target
  Engines :: "'e Engine list"
  Supported :: "string \<rightharpoonup> bool"
  MangleProps :: string
  ReserveProps :: string
  MangleQuoted :: MangleQuoted
  MangleCache :: "mangleCache option"
  Drop :: "Drop set"
  DropLabels :: "string list"
  MinifyWhitespace :: bool
  MinifyIdentifiers :: bool
  MinifySyntax :: bool
  LineLimit :: int
  Charset :: Charset
  TreeShaking :: TreeShaking
  IgnoreAnnotations :: bool
  LegalComments :: LegalComments
  JSX :: JSX
  JSXFactory :: string
  JSXFragment :: string
  JSXImportSource :: string
  JSXDev :: bool
  JSXSideEffects :: bool
  Define :: "string \<rightharpoonup> string"
  Pure :: "string list"
  KeepNames :: bool
  GlobalName :: string
  Bundle :: bool
  PreserveSymlinks :: bool
  Splitting :: bool
  Outfile :: string
  Metafile :: bool
  Outdir :: string
  Outbase :: string
  AbsWorkingDir :: string
  Platform :: Platform
  Format :: Format
  Packages :: Packages
  External :: "string list"
  MainFields :: "string list"
  Conditions :: "string list"
  Loader :: "string \<rightharpoonup> 'l"
  ResolveExtensions :: "string list"
  Tsconfig :: string
  TsconfigRaw :: string
  OutExtension :: "(string \<rightharpoonup> string) option"
  PublicPath :: string
  Inject :: "string list"
  Banner :: "string \<rightharpoonup> string"
  Footer :: "string \<rightharpoonup> string"
  NodePaths :: "string list"
  EntryNames :: string
  ChunkNames :: string
  AssetNames :: string
  EntryPoints :: "string list"
  EntryPointsAdvanced :: "EntryPoint list"
  Stdin :: "'l StdinOptions option"
  Write :: bool
  AllowOverwrite :: bool
  Alias :: "(string \<rightharpoonup> string) option"

record ('l, 'e) TransformOptions =
  Color :: StderrColor
  LogLevel :: LogLevel
  LogLimit :: int
  LogOverride :: "string \<rightharpoonup> LogLevel"
  AbsPaths :: "AbsPaths set"
  Sourcemap :: SourceMap
  SourceRoot :: string
  SourcesContent :: SourcesContent
  Target :: Target
  Engines :: "'e Engine list"
  Supported :: "string \<rightharpoonup> bool"
  Platform :: Platform
  Format :: Format
  GlobalName :: string
  MangleProps :: string
  ReserveProps :: string
  MangleQuoted :: MangleQuoted
  Drop :: "Drop set"
  DropLabels :: "string list"
  MinifyWhitespace :: bool
  MinifyIdentifiers :: bool
  MinifySyntax :: bool
  LineLimit :: int
  Charset :: Charset
  TreeShaking :: TreeShaking
  IgnoreAnnotations :: bool
  LegalComments :: LegalComments
  JSX :: JSX
  JSXFactory :: string
  JSXFragment :: string
  JSXImportSource :: string
  JSXDev :: bool
  JSXSideEffects :: bool
  TsconfigRaw :: string
  Banner :: string
  Footer :: string
  Define :: "string \<rightharpoonup> string"
  Pure :: "string list"
  KeepNames :: bool
  Sourcefile :: string
  Loader :: 'l

subsection \<open>Errors, extras and what the parser takes from other packages\<close>

record ErrorWithNote =
  Text :: string
  Note :: string

definition MakeErrorWithNote :: "string \<Rightarrow> string \<Rightarrow> ErrorWithNote" where
  "MakeErrorWithNote text note = \<lparr>Text = text, Note = note\<rparr>"

text \<open>
  A failure is a returned \<^verbatim>\<open>*ErrorWithNote\<close> or the run-time panic of a nil pointer
  dereference (an assignment through \<^verbatim>\<open>buildOpts\<close> or \<^verbatim>\<open>transformOpts\<close> when
  that pointer is nil).
\<close>

datatype failure = Error ErrorWithNote | NilDereference

datatype parseOptionsKind = kindInternal | kindExternal

record parseOptionsExtras =
  watch :: bool
  watchDelay :: int
  metafile :: "string option"
  mangleCache :: "string option"

definition noExtras :: parseOptionsExtras where
  "noExtras = \<lparr>watch = False, watchDelay = 0, metafile = None, mangleCache = None\<rparr>"

text \<open>
  What the parser uses and this file does not declare: the \<^verbatim>\<open>%q\<close> verb of
  \<^verbatim>\<open>fmt.Sprintf\<close> (\<open>Quote\<close>), \<^verbatim>\<open>strings.ToLower\<close>,
  \<^verbatim>\<open>cli_helpers.ParseLoader\<close> with the loader constants the parser compares with,
  and the table \<^verbatim>\<open>validEngines\<close>. The table is a Go map; \<^verbatim>\<open>range\<close> visits its
  entries in an order that Go leaves unspecified, so the field holds the entries in
  the order of the visit.
\<close>

record ('l, 'e) externals =
  Quote :: "string \<Rightarrow> string"
  ToLower :: "string \<Rightarrow> string"
  ParseLoader :: "string \<Rightarrow> ErrorWithNote + 'l"
  LoaderNone :: 'l
  LoaderFile :: 'l
  LoaderCopy :: 'l
  validEngines :: "(string \<times> 'e) list"

definition isBoolFlag :: "string \<Rightarrow> string \<Rightarrow> bool" where
  "isBoolFlag arg flag =
     (if HasPrefix arg flag
      then (case drop (length flag) arg of [] \<Rightarrow> True | c # _ \<Rightarrow> c = CHR ''='')
      else False)"

definition invalidValue :: "('l, 'e) externals \<Rightarrow> string \<Rightarrow> string \<Rightarrow> string \<Rightarrow> ErrorWithNote" where
  "invalidValue X v arg note =
     MakeErrorWithNote (''Invalid value '' @ Quote X v @ '' in '' @ Quote X arg) note"

definition missingEquals :: "('l, 'e) externals \<Rightarrow> string \<Rightarrow> string \<Rightarrow> ErrorWithNote" where
  "missingEquals X arg note =
     MakeErrorWithNote (''Missing \"=\" in '' @ Quote X arg) note"

definition parseBoolFlag :: "('l, 'e) externals \<Rightarrow> string \<Rightarrow> bool \<Rightarrow> ErrorWithNote + bool" where
  "parseBoolFlag X arg defaultValue =
     (case IndexByte arg CHR ''='' of
        None \<Rightarrow> Inr defaultValue
      | Some equals \<Rightarrow>
          (let v = drop (equals + 1) arg
           in if v = ''false'' then Inr False
              else if v = ''true'' then Inr True
              else Inl (invalidValue X v arg ''Valid values are \"true\" or \"false\".'')))"

subsection \<open>The state of the parsing loop\<close>

text \<open>
  \<^verbatim>\<open>parseOptionsImpl\<close> writes through the two option pointers, of which a caller
  passes one as nil, and keeps \<^verbatim>\<open>extras\<close> and \<^verbatim>\<open>hasBareSourceMapFlag\<close> as
  locals.
\<close>

record ('l, 'e) parseState =
  buildOpts :: "('l, 'e) BuildOptions option"
  transformOpts :: "('l, 'e) TransformOptions option"
  extras :: parseOptionsExtras
  hasBareSourceMapFlag :: bool

type_synonym ('l, 'e) step = "failure + ('l, 'e) parseState"

text \<open>An assignment \<^verbatim>\<open>buildOpts.F = v\<close>; it panics when the pointer is nil.\<close>

definition onBuild ::
  "(('l, 'e) BuildOptions \<Rightarrow> ('l, 'e) BuildOptions) \<Rightarrow> ('l, 'e) parseState \<Rightarrow> ('l, 'e) step" where
  "onBuild f s =
     (case buildOpts s of
        None \<Rightarrow> Inl NilDereference
      | Some b \<Rightarrow> Inr (s\<lparr>buildOpts := Some (f b)\<rparr>))"

definition onTransform ::
  "(('l, 'e) TransformOptions \<Rightarrow> ('l, 'e) TransformOptions) \<Rightarrow> ('l, 'e) parseState \<Rightarrow> ('l, 'e) step" where
  "onTransform f s =
     (case transformOpts s of
        None \<Rightarrow> Inl NilDereference
      | Some t \<Rightarrow> Inr (s\<lparr>transformOpts := Some (f t)\<rparr>))"

text \<open>\<^verbatim>\<open>if buildOpts != nil { buildOpts.F = v } else { transformOpts.F = v }\<close>\<close>

definition onEither ::
  "(('l, 'e) BuildOptions \<Rightarrow> ('l, 'e) BuildOptions) \<Rightarrow>
   (('l, 'e) TransformOptions \<Rightarrow> ('l, 'e) TransformOptions) \<Rightarrow> ('l, 'e) parseState \<Rightarrow> ('l, 'e) step" where
  "onEither fb ft s = (if buildOpts s \<noteq> None then onBuild fb s else onTransform ft s)"

text \<open>\<^verbatim>\<open>if value, err := parseBoolFlag(arg, true); err != nil { return ..., err } else { ... }\<close>\<close>

definition withBool ::
  "('l, 'e) externals \<Rightarrow> string \<Rightarrow> (bool \<Rightarrow> ('l, 'e) step) \<Rightarrow> ('l, 'e) step" where
  "withBool X arg k =
     (case parseBoolFlag X arg True of
        Inl e \<Rightarrow> Inl (Error e)
      | Inr v \<Rightarrow> k v)"

subsection \<open>The cases of the switch, in the order of the source\<close>

text \<open>
  The switch of \<^verbatim>\<open>parseOptionsImpl\<close> takes the first case whose condition holds. It
  is split into five runs of cases; each returns \<^term>\<open>None\<close> when none of its
  conditions holds, and the next run is tried. Lines 96 to 246:
\<close>

definition cases_bundle_to_dropLabels ::
  "('l, 'e) externals \<Rightarrow> parseOptionsKind \<Rightarrow> string \<Rightarrow> ('l, 'e) parseState \<Rightarrow> ('l, 'e) step option" where
  "cases_bundle_to_dropLabels X kind arg s =
    (if isBoolFlag arg ''--bundle'' \<and> buildOpts s \<noteq> None then
       Some (withBool X arg (\<lambda>v. onBuild (\<lambda>b. b\<lparr>Bundle := v\<rparr>) s))
     else if isBoolFlag arg ''--preserve-symlinks'' \<and> buildOpts s \<noteq> None then
       Some (withBool X arg (\<lambda>v. onBuild (\<lambda>b. b\<lparr>PreserveSymlinks := v\<rparr>) s))
     else if isBoolFlag arg ''--splitting'' \<and> buildOpts s \<noteq> None then
       Some (withBool X arg (\<lambda>v. onBuild (\<lambda>b. b\<lparr>Splitting := v\<rparr>) s))
     else if isBoolFlag arg ''--allow-overwrite'' \<and> buildOpts s \<noteq> None then
       Some (withBool X arg (\<lambda>v. onBuild (\<lambda>b. b\<lparr>AllowOverwrite := v\<rparr>) s))
     else if isBoolFlag arg ''--watch'' \<and> buildOpts s \<noteq> None then
       Some (withBool X arg (\<lambda>v. Inr (s\<lparr>extras := (extras s)\<lparr>watch := v\<rparr>\<rparr>)))
     else if HasPrefix arg ''--watch-delay='' \<and> buildOpts s \<noteq> None then
       Some (let v = after arg ''--watch-delay=''
             in case Atoi v of
                  None \<Rightarrow> Inl (Error (invalidValue X v arg ''The watch delay must be an integer.''))
                | Some delay \<Rightarrow> Inr (s\<lparr>extras := (extras s)\<lparr>watchDelay := delay\<rparr>\<rparr>))
     else if isBoolFlag arg ''--minify'' then
       Some (withBool X arg (\<lambda>v. onEither
         (\<lambda>b. b\<lparr>BuildOptions.MinifySyntax := v, BuildOptions.MinifyWhitespace := v,
                BuildOptions.MinifyIdentifiers := v\<rparr>)
         (\<lambda>t. t\<lparr>TransformOptions.MinifySyntax := v, TransformOptions.MinifyWhitespace := v,
                TransformOptions.MinifyIdentifiers := v\<rparr>) s))
     else if isBoolFlag arg ''--minify-syntax'' then
       Some (withBool X arg (\<lambda>v. onEither
         (\<lambda>b. b\<lparr>BuildOptions.MinifySyntax := v\<rparr>)
         (\<lambda>t. t\<lparr>TransformOptions.MinifySyntax := v\<rparr>) s))
     else if isBoolFlag arg ''--minify-whitespace'' then
       Some (withBool X arg (\<lambda>v. onEither
         (\<lambda>b. b\<lparr>BuildOptions.MinifyWhitespace := v\<rparr>)
         (\<lambda>t. t\<lparr>TransformOptions.MinifyWhitespace := v\<rparr>) s))
     else if isBoolFlag arg ''--minify-identifiers'' then
       Some (withBool X arg (\<lambda>v. onEither
         (\<lambda>b. b\<lparr>BuildOptions.MinifyIdentifiers := v\<rparr>)
         (\<lambda>t. t\<lparr>TransformOptions.MinifyIdentifiers := v\<rparr>) s))
     else if isBoolFlag arg ''--mangle-quoted'' then
       Some (withBool X arg (\<lambda>v. onEither
         (\<lambda>b. b\<lparr>BuildOptions.MangleQuoted := (if v then MangleQuotedTrue else MangleQuotedFalse)\<rparr>)
         (\<lambda>t. t\<lparr>TransformOptions.MangleQuoted := (if v then MangleQuotedTrue else MangleQuotedFalse)\<rparr>) s))
     else if HasPrefix arg ''--mangle-props='' then
       Some (let v = after arg ''--mangle-props=''
             in onEither (\<lambda>b. b\<lparr>BuildOptions.MangleProps := v\<rparr>)
                         (\<lambda>t. t\<lparr>TransformOptions.MangleProps := v\<rparr>) s)
     else if HasPrefix arg ''--reserve-props='' then
       Some (let v = after arg ''--reserve-props=''
             in onEither (\<lambda>b. b\<lparr>BuildOptions.ReserveProps := v\<rparr>)
                         (\<lambda>t. t\<lparr>TransformOptions.ReserveProps := v\<rparr>) s)
     else if HasPrefix arg ''--mangle-cache='' \<and> buildOpts s \<noteq> None \<and> kind = kindInternal then
       Some (let v = after arg ''--mangle-cache=''
             in Inr (s\<lparr>extras := (extras s)\<lparr>mangleCache := Some v\<rparr>\<rparr>))
     else if HasPrefix arg ''--drop:'' then
       Some (let v = after arg ''--drop:''
             in if v = ''console'' then
                  onEither (\<lambda>b. b\<lparr>BuildOptions.Drop := insert DropConsole (BuildOptions.Drop b)\<rparr>)
                           (\<lambda>t. t\<lparr>TransformOptions.Drop := insert DropConsole (TransformOptions.Drop t)\<rparr>) s
                else if v = ''debugger'' then
                  onEither (\<lambda>b. b\<lparr>BuildOptions.Drop := insert DropDebugger (BuildOptions.Drop b)\<rparr>)
                           (\<lambda>t. t\<lparr>TransformOptions.Drop := insert DropDebugger (TransformOptions.Drop t)\<rparr>) s
                else Inl (Error (invalidValue X v arg
                       ''Valid values are \"console\" or \"debugger\".'')))
     else if HasPrefix arg ''--drop-labels='' then
       Some (let v = splitWithEmptyCheck (after arg ''--drop-labels='') CHR '',''
             in onEither (\<lambda>b. b\<lparr>BuildOptions.DropLabels := v\<rparr>)
                         (\<lambda>t. t\<lparr>TransformOptions.DropLabels := v\<rparr>) s)
     else None)"

text \<open>
  Lines 248 to 450. The \<^verbatim>\<open>--charset=\<close> case takes the address of the field before
  it looks at the value, so with both pointers nil it panics whatever the value; the
  \<^verbatim>\<open>--sourcefile=\<close> case allocates \<^verbatim>\<open>buildOpts.Stdin\<close> when it is nil.
\<close>

definition sourcemapOf :: "string \<Rightarrow> SourceMap option" where
  "sourcemapOf v =
     (if v = ''linked'' then Some SourceMapLinked
      else if v = ''inline'' then Some SourceMapInline
      else if v = ''external'' then Some SourceMapExternal
      else if v = ''both'' then Some SourceMapInlineAndExternal
      else None)"

definition legalCommentsOf :: "string \<Rightarrow> LegalComments option" where
  "legalCommentsOf v =
     (if v = ''none'' then Some LegalCommentsNone
      else if v = ''inline'' then Some LegalCommentsInline
      else if v = ''eof'' then Some LegalCommentsEndOfFile
      else if v = ''linked'' then Some LegalCommentsLinked
      else if v = ''external'' then Some LegalCommentsExternal
      else None)"

definition emptyStdin :: "('l, 'e) externals \<Rightarrow> 'l StdinOptions" where
  "emptyStdin X = \<lparr>Contents = [], ResolveDir = [], Sourcefile = [], Loader = LoaderNone X\<rparr>"

definition stdinOrNew :: "('l, 'e) externals \<Rightarrow> ('l, 'e) BuildOptions \<Rightarrow> 'l StdinOptions" where
  "stdinOrNew X b = (case Stdin b of None \<Rightarrow> emptyStdin X | Some i \<Rightarrow> i)"

definition cases_legalComments_to_assetNames ::
  "('l, 'e) externals \<Rightarrow> parseOptionsKind \<Rightarrow> string \<Rightarrow> ('l, 'e) parseState \<Rightarrow> ('l, 'e) step option" where
  "cases_legalComments_to_assetNames X kind arg s =
    (if HasPrefix arg ''--legal-comments='' then
       Some (let v = after arg ''--legal-comments=''
             in case legalCommentsOf v of
                  None \<Rightarrow> Inl (Error (invalidValue X v arg
                    ''Valid values are \"none\", \"inline\", \"eof\", \"linked\", or \"external\".''))
                | Some legalComments \<Rightarrow>
                    onEither (\<lambda>b. b\<lparr>BuildOptions.LegalComments := legalComments\<rparr>)
                             (\<lambda>t. t\<lparr>TransformOptions.LegalComments := legalComments\<rparr>) s)
     else if HasPrefix arg ''--charset='' then
       Some (if buildOpts s = None \<and> transformOpts s = None then Inl NilDereference
             else let name = after arg ''--charset=''
                  in if name = ''ascii'' then
                       onEither (\<lambda>b. b\<lparr>BuildOptions.Charset := CharsetASCII\<rparr>)
                                (\<lambda>t. t\<lparr>TransformOptions.Charset := CharsetASCII\<rparr>) s
                     else if name = ''utf8'' then
                       onEither (\<lambda>b. b\<lparr>BuildOptions.Charset := CharsetUTF8\<rparr>)
                                (\<lambda>t. t\<lparr>TransformOptions.Charset := CharsetUTF8\<rparr>) s
                     else Inl (Error (invalidValue X name arg
                            ''Valid values are \"ascii\" or \"utf8\".'')))
     else if isBoolFlag arg ''--tree-shaking'' then
       Some (withBool X arg (\<lambda>v. onEither
         (\<lambda>b. b\<lparr>BuildOptions.TreeShaking := (if v then TreeShakingTrue else TreeShakingFalse)\<rparr>)
         (\<lambda>t. t\<lparr>TransformOptions.TreeShaking := (if v then TreeShakingTrue else TreeShakingFalse)\<rparr>) s))
     else if isBoolFlag arg ''--ignore-annotations'' then
       Some (withBool X arg (\<lambda>v. onEither
         (\<lambda>b. b\<lparr>BuildOptions.IgnoreAnnotations := v\<rparr>)
         (\<lambda>t. t\<lparr>TransformOptions.IgnoreAnnotations := v\<rparr>) s))
     else if isBoolFlag arg ''--keep-names'' then
       Some (withBool X arg (\<lambda>v. onEither
         (\<lambda>b. b\<lparr>BuildOptions.KeepNames := v\<rparr>)
         (\<lambda>t. t\<lparr>TransformOptions.KeepNames := v\<rparr>) s))
     else if arg = ''--sourcemap'' then
       Some (case onEither (\<lambda>b. b\<lparr>BuildOptions.Sourcemap := SourceMapLinked\<rparr>)
                           (\<lambda>t. t\<lparr>TransformOptions.Sourcemap := SourceMapInline\<rparr>) s of
               Inl f \<Rightarrow> Inl f
             | Inr s' \<Rightarrow> Inr (s'\<lparr>hasBareSourceMapFlag := True\<rparr>))
     else if HasPrefix arg ''--sourcemap='' then
       Some (let v = after arg ''--sourcemap=''
             in case sourcemapOf v of
                  None \<Rightarrow> Inl (Error (invalidValue X v arg
                    ''Valid values are \"linked\", \"inline\", \"external\", or \"both\".''))
                | Some sourcemap \<Rightarrow>
                    (case onEither (\<lambda>b. b\<lparr>BuildOptions.Sourcemap := sourcemap\<rparr>)
                                   (\<lambda>t. t\<lparr>TransformOptions.Sourcemap := sourcemap\<rparr>) s of
                       Inl f \<Rightarrow> Inl f
                     | Inr s' \<Rightarrow> Inr (s'\<lparr>hasBareSourceMapFlag := False\<rparr>)))
     else if HasPrefix arg ''--source-root='' then
       Some (let sourceRoot = after arg ''--source-root=''
             in onEither (\<lambda>b. b\<lparr>BuildOptions.SourceRoot := sourceRoot\<rparr>)
                         (\<lambda>t. t\<lparr>TransformOptions.SourceRoot := sourceRoot\<rparr>) s)
     else if isBoolFlag arg ''--sources-content'' then
       Some (withBool X arg (\<lambda>v. onEither
         (\<lambda>b. b\<lparr>BuildOptions.SourcesContent :=
                  (if v then SourcesContentInclude else SourcesContentExclude)\<rparr>)
         (\<lambda>t. t\<lparr>TransformOptions.SourcesContent :=
                  (if v then SourcesContentInclude else SourcesContentExclude)\<rparr>) s))
     else if HasPrefix arg ''--sourcefile='' then
       Some (let v = after arg ''--sourcefile=''
             in onEither
                  (\<lambda>b. b\<lparr>Stdin := Some ((stdinOrNew X b)\<lparr>StdinOptions.Sourcefile := v\<rparr>)\<rparr>)
                  (\<lambda>t. t\<lparr>TransformOptions.Sourcefile := v\<rparr>) s)
     else if HasPrefix arg ''--resolve-extensions='' \<and> buildOpts s \<noteq> None then
       Some (onBuild (\<lambda>b. b\<lparr>ResolveExtensions :=
               splitWithEmptyCheck (after arg ''--resolve-extensions='') CHR '',''\<rparr>) s)
     else if HasPrefix arg ''--main-fields='' \<and> buildOpts s \<noteq> None then
       Some (onBuild (\<lambda>b. b\<lparr>MainFields :=
               splitWithEmptyCheck (after arg ''--main-fields='') CHR '',''\<rparr>) s)
     else if HasPrefix arg ''--conditions='' \<and> buildOpts s \<noteq> None then
       Some (onBuild (\<lambda>b. b\<lparr>Conditions :=
               splitWithEmptyCheck (after arg ''--conditions='') CHR '',''\<rparr>) s)
     else if HasPrefix arg ''--public-path='' \<and> buildOpts s \<noteq> None then
       Some (onBuild (\<lambda>b. b\<lparr>PublicPath := after arg ''--public-path=''\<rparr>) s)
     else if HasPrefix arg ''--global-name='' then
       Some (let v = after arg ''--global-name=''
             in onEither (\<lambda>b. b\<lparr>BuildOptions.GlobalName := v\<rparr>)
                         (\<lambda>t. t\<lparr>TransformOptions.GlobalName := v\<rparr>) s)
     else if arg = ''--metafile'' \<and> buildOpts s \<noteq> None \<and> kind = kindExternal then
       Some (onBuild (\<lambda>b. b\<lparr>Metafile := True\<rparr>) s)
     else if HasPrefix arg ''--metafile='' \<and> buildOpts s \<noteq> None \<and> kind = kindInternal then
       Some (let v = after arg ''--metafile=''
             in case onBuild (\<lambda>b. b\<lparr>Metafile := True\<rparr>) s of
                  Inl f \<Rightarrow> Inl f
                | Inr s' \<Rightarrow> Inr (s'\<lparr>extras := (extras s')\<lparr>metafile := Some v\<rparr>\<rparr>))
     else if HasPrefix arg ''--outfile='' \<and> buildOpts s \<noteq> None then
       Some (onBuild (\<lambda>b. b\<lparr>Outfile := after arg ''--outfile=''\<rparr>) s)
     else if HasPrefix arg ''--outdir='' \<and> buildOpts s \<noteq> None then
       Some (onBuild (\<lambda>b. b\<lparr>Outdir := after arg ''--outdir=''\<rparr>) s)
     else if HasPrefix arg ''--outbase='' \<and> buildOpts s \<noteq> None then
       Some (onBuild (\<lambda>b. b\<lparr>Outbase := after arg ''--outbase=''\<rparr>) s)
     else if HasPrefix arg ''--tsconfig='' \<and> buildOpts s \<noteq> None then
       Some (onBuild (\<lambda>b. b\<lparr>Tsconfig := after arg ''--tsconfig=''\<rparr>) s)
     else if HasPrefix arg ''--tsconfig-raw='' then
       Some (let v = after arg ''--tsconfig-raw=''
             in onEither (\<lambda>b. b\<lparr>BuildOptions.TsconfigRaw := v\<rparr>)
                         (\<lambda>t. t\<lparr>TransformOptions.TsconfigRaw := v\<rparr>) s)
     else if HasPrefix arg ''--entry-names='' \<and> buildOpts s \<noteq> None then
       Some (onBuild (\<lambda>b. b\<lparr>EntryNames := after arg ''--entry-names=''\<rparr>) s)
     else if HasPrefix arg ''--chunk-names='' \<and> buildOpts s \<noteq> None then
       Some (onBuild (\<lambda>b. b\<lparr>ChunkNames := after arg ''--chunk-names=''\<rparr>) s)
     else if HasPrefix arg ''--asset-names='' \<and> buildOpts s \<noteq> None then
       Some (onBuild (\<lambda>b. b\<lparr>AssetNames := after arg ''--asset-names=''\<rparr>) s)
     else None)"

text \<open>Lines 1543 to 1562.\<close>

definition parseLogLevel :: "('l, 'e) externals \<Rightarrow> string \<Rightarrow> string \<Rightarrow> ErrorWithNote + LogLevel" where
  "parseLogLevel X v arg =
     (if v = ''verbose'' then Inr LogLevelVerbose
      else if v = ''debug'' then Inr LogLevelDebug
      else if v = ''info'' then Inr LogLevelInfo
      else if v = ''warning'' then Inr LogLevelWarning
      else if v = ''error'' then Inr LogLevelError
      else if v = ''silent'' then Inr LogLevelSilent
      else Inl (invalidValue X v arg (''Valid values are \"verbose\", \"debug\", \"info\", '' @
             ''\"warning\", \"error\", or \"silent\".'')))"

text \<open>Lines 1012 to 1063: \<^verbatim>\<open>parseTargets\<close>.\<close>

definition validTargets :: "string \<rightharpoonup> Target" where
  "validTargets = map_of
     [(''esnext'', ESNext), (''es5'', ES5), (''es6'', ES2015), (''es2015'', ES2015),
      (''es2016'', ES2016), (''es2017'', ES2017), (''es2018'', ES2018), (''es2019'', ES2019),
      (''es2020'', ES2020), (''es2021'', ES2021), (''es2022'', ES2022), (''es2023'', ES2023),
      (''es2024'', ES2024)]"

text \<open>
  The inner loop \<^verbatim>\<open>for engine, name := range validEngines\<close>: the first entry of the
  visit whose key is a prefix of the value.
\<close>

fun findEngine :: "(string \<times> 'e) list \<Rightarrow> string \<Rightarrow> (string \<times> 'e) option" where
  "findEngine [] v = None"
| "findEngine ((engine, name) # rest) v =
     (if HasPrefix v engine then Some (engine, name) else findEngine rest v)"

text \<open>The note of the last error: the names are quoted, then sorted with \<^verbatim>\<open>sort.Strings\<close>.\<close>

definition invalidTargetNote :: "('l, 'e) externals \<Rightarrow> string" where
  "invalidTargetNote X =
     (let engines = sort (''\"esN\"'' # map (\<lambda>(key, name). Quote X (key @ ''N'')) (validEngines X))
      in ''Valid values are '' @ Join (butlast engines) '', '' @ '', or '' @ last engines @
         '' where N is a version number.'')"

fun parseTargets_loop ::
  "('l, 'e) externals \<Rightarrow> string \<Rightarrow> string list \<Rightarrow> Target \<Rightarrow> 'e Engine list \<Rightarrow>
   ErrorWithNote + (Target \<times> 'e Engine list)" where
  "parseTargets_loop X arg [] target engines = Inr (target, engines)"
| "parseTargets_loop X arg (v # rest) target engines =
     (case validTargets (ToLower X v) of
        Some valid \<Rightarrow> parseTargets_loop X arg rest valid engines
      | None \<Rightarrow>
          (case findEngine (validEngines X) v of
             Some (engine, name) \<Rightarrow>
               (let version = drop (length engine) v
                in if version = [] then
                     Inl (MakeErrorWithNote
                       (''Target '' @ Quote X v @ '' is missing a version number in '' @ Quote X arg) [])
                   else parseTargets_loop X arg rest target
                          (engines @ [\<lparr>Name = name, Version = version\<rparr>]))
           | None \<Rightarrow>
               Inl (MakeErrorWithNote
                 (''Invalid target '' @ Quote X v @ '' in '' @ Quote X arg) (invalidTargetNote X))))"

definition parseTargets ::
  "('l, 'e) externals \<Rightarrow> string list \<Rightarrow> string \<Rightarrow> ErrorWithNote + (Target \<times> 'e Engine list)" where
  "parseTargets X targets arg = parseTargets_loop X arg targets DefaultTarget []"

text \<open>The loop of the \<^verbatim>\<open>--abs-paths=\<close> case; \<^term>\<open>Inl\<close> carries the value it rejects.\<close>

fun absPathsOf :: "string list \<Rightarrow> AbsPaths set \<Rightarrow> string + AbsPaths set" where
  "absPathsOf [] absPaths = Inr absPaths"
| "absPathsOf (v # vs) absPaths =
     (if v = ''code'' then absPathsOf vs (insert CodeAbsPath absPaths)
      else if v = ''log'' then absPathsOf vs (insert LogAbsPath absPaths)
      else if v = ''metafile'' then absPathsOf vs (insert MetafileAbsPath absPaths)
      else Inl v)"

text \<open>Lines 452 to 603.\<close>

definition cases_define_to_outExtension ::
  "('l, 'e) externals \<Rightarrow> parseOptionsKind \<Rightarrow> string \<Rightarrow> ('l, 'e) parseState \<Rightarrow> ('l, 'e) step option" where
  "cases_define_to_outExtension X kind arg s =
    (if HasPrefix arg ''--define:'' then
       Some (let v = after arg ''--define:''
             in case IndexByte v CHR ''='' of
                  None \<Rightarrow> Inl (Error (missingEquals X arg
                    (''You need to use \"=\" to specify both the original value and the replacement value. '' @
                     ''For example, \"--define:DEBUG=true\" replaces \"DEBUG\" with \"true\".'')))
                | Some equals \<Rightarrow>
                    onEither
                      (\<lambda>b. b\<lparr>BuildOptions.Define :=
                               (BuildOptions.Define b)(take equals v \<mapsto> drop (equals + 1) v)\<rparr>)
                      (\<lambda>t. t\<lparr>TransformOptions.Define :=
                               (TransformOptions.Define t)(take equals v \<mapsto> drop (equals + 1) v)\<rparr>) s)
     else if HasPrefix arg ''--log-override:'' then
       Some (let v = after arg ''--log-override:''
             in case IndexByte v CHR ''='' of
                  None \<Rightarrow> Inl (Error (missingEquals X arg
                    (''You need to use \"=\" to specify both the message name and the log level. '' @
                     ''For example, \"--log-override:css-syntax-error=error\" turns all '' @
                     ''\"css-syntax-error\" log messages into errors.'')))
                | Some equals \<Rightarrow>
                    (case parseLogLevel X (drop (equals + 1) v) arg of
                       Inl e \<Rightarrow> Inl (Error e)
                     | Inr logLevel \<Rightarrow>
                         onEither
                           (\<lambda>b. b\<lparr>BuildOptions.LogOverride :=
                                    (BuildOptions.LogOverride b)(take equals v \<mapsto> logLevel)\<rparr>)
                           (\<lambda>t. t\<lparr>TransformOptions.LogOverride :=
                                    (TransformOptions.LogOverride t)(take equals v \<mapsto> logLevel)\<rparr>) s))
     else if HasPrefix arg ''--abs-paths='' then
       Some (let values = splitWithEmptyCheck (after arg ''--abs-paths='') CHR '',''
             in case absPathsOf values {} of
                  Inl v \<Rightarrow> Inl (Error (invalidValue X v arg
                    ''Valid values are \"code\", \"log\", or \"metafile\".''))
                | Inr absPaths \<Rightarrow>
                    onEither (\<lambda>b. b\<lparr>BuildOptions.AbsPaths := absPaths\<rparr>)
                             (\<lambda>t. t\<lparr>TransformOptions.AbsPaths := absPaths\<rparr>) s)
     else if HasPrefix arg ''--supported:'' then
       Some (let v = after arg ''--supported:''
             in case IndexByte v CHR ''='' of
                  None \<Rightarrow> Inl (Error (missingEquals X arg
                    (''You need to use \"=\" to specify both the name of the feature and whether it is '' @
                     ''supported or not. For example, \"--supported:arrow=false\" marks arrow functions '' @
                     ''as unsupported.'')))
                | Some equals \<Rightarrow>
                    withBool X arg (\<lambda>isSupported. onEither
                      (\<lambda>b. b\<lparr>BuildOptions.Supported :=
                               (BuildOptions.Supported b)(take equals v \<mapsto> isSupported)\<rparr>)
                      (\<lambda>t. t\<lparr>TransformOptions.Supported :=
                               (TransformOptions.Supported t)(take equals v \<mapsto> isSupported)\<rparr>) s))
     else if HasPrefix arg ''--pure:'' then
       Some (let v = after arg ''--pure:''
             in onEither (\<lambda>b. b\<lparr>BuildOptions.Pure := BuildOptions.Pure b @ [v]\<rparr>)
                         (\<lambda>t. t\<lparr>TransformOptions.Pure := TransformOptions.Pure t @ [v]\<rparr>) s)
     else if HasPrefix arg ''--loader:'' \<and> buildOpts s \<noteq> None then
       Some (let v = after arg ''--loader:''
             in case IndexByte v CHR ''='' of
                  None \<Rightarrow> Inl (Error (missingEquals X arg
                    (''You need to specify the file extension that the loader applies to. '' @
                     ''For example, \"--loader:.js=jsx\" applies the \"jsx\" loader to files with '' @
                     ''the \".js\" extension.'')))
                | Some equals \<Rightarrow>
                    (case ParseLoader X (drop (equals + 1) v) of
                       Inl e \<Rightarrow> Inl (Error e)
                     | Inr loader \<Rightarrow>
                         onBuild (\<lambda>b. b\<lparr>BuildOptions.Loader :=
                                    (BuildOptions.Loader b)(take equals v \<mapsto> loader)\<rparr>) s))
     else if HasPrefix arg ''--loader='' then
       Some (let v = after arg ''--loader=''
             in case ParseLoader X v of
                  Inl e \<Rightarrow> Inl (Error e)
                | Inr loader \<Rightarrow>
                    if loader = LoaderFile X \<or> loader = LoaderCopy X then
                      Inl (Error (MakeErrorWithNote
                        (Quote X arg @ '' is not supported when transforming stdin'')
                        (''Using esbuild to transform stdin only generates one output file, so you '' @
                         ''cannot use the '' @ Quote X v @ '' loader since that needs to generate two '' @
                         ''output files.'')))
                    else onEither
                      (\<lambda>b. b\<lparr>Stdin := Some ((stdinOrNew X b)\<lparr>StdinOptions.Loader := loader\<rparr>)\<rparr>)
                      (\<lambda>t. t\<lparr>TransformOptions.Loader := loader\<rparr>) s)
     else if HasPrefix arg ''--target='' then
       Some (case parseTargets X
                    (splitWithEmptyCheck (after arg ''--target='') CHR '','') arg of
               Inl e \<Rightarrow> Inl (Error e)
             | Inr (target, engines) \<Rightarrow>
                 onEither
                   (\<lambda>b. b\<lparr>BuildOptions.Target := target, BuildOptions.Engines := engines\<rparr>)
                   (\<lambda>t. t\<lparr>TransformOptions.Target := target, TransformOptions.Engines := engines\<rparr>) s)
     else if HasPrefix arg ''--out-extension:'' \<and> buildOpts s \<noteq> None then
       Some (let v = after arg ''--out-extension:''
             in case IndexByte v CHR ''='' of
                  None \<Rightarrow> Inl (Error (missingEquals X arg
                    (''You need to use either \"--out-extension:.js=...\" or '' @
                     ''\"--out-extension:.css=...\" to specify the file type that the output '' @
                     ''extension applies to .'')))
                | Some equals \<Rightarrow>
                    onBuild (\<lambda>b. b\<lparr>OutExtension := Some
                      ((case OutExtension b of None \<Rightarrow> Map.empty | Some m \<Rightarrow> m)
                         (take equals v \<mapsto> drop (equals + 1) v))\<rparr>) s)
     else None)"

text \<open>Lines 605 to 776.\<close>

definition platformOf :: "string \<Rightarrow> Platform option" where
  "platformOf v =
     (if v = ''browser'' then Some PlatformBrowser
      else if v = ''node'' then Some PlatformNode
      else if v = ''neutral'' then Some PlatformNeutral
      else None)"

definition formatOf :: "string \<Rightarrow> Format option" where
  "formatOf v =
     (if v = ''iife'' then Some FormatIIFE
      else if v = ''cjs'' then Some FormatCommonJS
      else if v = ''esm'' then Some FormatESModule
      else None)"

definition packagesOf :: "string \<Rightarrow> Packages option" where
  "packagesOf v =
     (if v = ''bundle'' then Some PackagesBundle
      else if v = ''external'' then Some PackagesExternal
      else None)"

definition jsxOf :: "string \<Rightarrow> JSX option" where
  "jsxOf v =
     (if v = ''transform'' then Some JSXTransform
      else if v = ''preserve'' then Some JSXPreserve
      else if v = ''automatic'' then Some JSXAutomatic
      else None)"

definition cases_platform_to_footer ::
  "('l, 'e) externals \<Rightarrow> parseOptionsKind \<Rightarrow> string \<Rightarrow> ('l, 'e) parseState \<Rightarrow> ('l, 'e) step option" where
  "cases_platform_to_footer X kind arg s =
    (if HasPrefix arg ''--platform='' then
       Some (let v = after arg ''--platform=''
             in case platformOf v of
                  None \<Rightarrow> Inl (Error (invalidValue X v arg
                    ''Valid values are \"browser\", \"node\", or \"neutral\".''))
                | Some platform \<Rightarrow>
                    onEither (\<lambda>b. b\<lparr>BuildOptions.Platform := platform\<rparr>)
                             (\<lambda>t. t\<lparr>TransformOptions.Platform := platform\<rparr>) s)
     else if HasPrefix arg ''--format='' then
       Some (let v = after arg ''--format=''
             in case formatOf v of
                  None \<Rightarrow> Inl (Error (invalidValue X v arg
                    ''Valid values are \"iife\", \"cjs\", or \"esm\".''))
                | Some format \<Rightarrow>
                    onEither (\<lambda>b. b\<lparr>BuildOptions.Format := format\<rparr>)
                             (\<lambda>t. t\<lparr>TransformOptions.Format := format\<rparr>) s)
     else if HasPrefix arg ''--packages='' \<and> buildOpts s \<noteq> None then
       Some (let v = after arg ''--packages=''
             in case packagesOf v of
                  None \<Rightarrow> Inl (Error (invalidValue X v arg
                    ''Valid values are \"bundle\" or \"external\".''))
                | Some packages \<Rightarrow> onBuild (\<lambda>b. b\<lparr>Packages := packages\<rparr>) s)
     else if HasPrefix arg ''--external:'' \<and> buildOpts s \<noteq> None then
       Some (onBuild (\<lambda>b. b\<lparr>External := External b @ [after arg ''--external:'']\<rparr>) s)
     else if HasPrefix arg ''--inject:'' \<and> buildOpts s \<noteq> None then
       Some (onBuild (\<lambda>b. b\<lparr>Inject := Inject b @ [after arg ''--inject:'']\<rparr>) s)
     else if HasPrefix arg ''--alias:'' \<and> buildOpts s \<noteq> None then
       Some (let v = after arg ''--alias:''
             in case IndexByte v CHR ''='' of
                  None \<Rightarrow> Inl (Error (missingEquals X arg
                    (''You need to use \"=\" to specify both the original package name and the '' @
                     ''replacement package name. For example, \"--alias:old=new\" replaces package '' @
                     ''\"old\" with package \"new\".'')))
                | Some equals \<Rightarrow>
                    onBuild (\<lambda>b. b\<lparr>Alias := Some
                      ((case Alias b of None \<Rightarrow> Map.empty | Some m \<Rightarrow> m)
                         (take equals v \<mapsto> drop (equals + 1) v))\<rparr>) s)
     else if HasPrefix arg ''--jsx='' then
       Some (let v = after arg ''--jsx=''
             in case jsxOf v of
                  None \<Rightarrow> Inl (Error (invalidValue X v arg
                    ''Valid values are \"transform\", \"automatic\", or \"preserve\".''))
                | Some mode \<Rightarrow>
                    onEither (\<lambda>b. b\<lparr>BuildOptions.JSX := mode\<rparr>)
                             (\<lambda>t. t\<lparr>TransformOptions.JSX := mode\<rparr>) s)
     else if HasPrefix arg ''--jsx-factory='' then
       Some (let v = after arg ''--jsx-factory=''
             in onEither (\<lambda>b. b\<lparr>BuildOptions.JSXFactory := v\<rparr>)
                         (\<lambda>t. t\<lparr>TransformOptions.JSXFactory := v\<rparr>) s)
     else if HasPrefix arg ''--jsx-fragment='' then
       Some (let v = after arg ''--jsx-fragment=''
             in onEither (\<lambda>b. b\<lparr>BuildOptions.JSXFragment := v\<rparr>)
                         (\<lambda>t. t\<lparr>TransformOptions.JSXFragment := v\<rparr>) s)
     else if HasPrefix arg ''--jsx-import-source='' then
       Some (let v = after arg ''--jsx-import-source=''
             in onEither (\<lambda>b. b\<lparr>BuildOptions.JSXImportSource := v\<rparr>)
                         (\<lambda>t. t\<lparr>TransformOptions.JSXImportSource := v\<rparr>) s)
     else if isBoolFlag arg ''--jsx-dev'' then
       Some (withBool X arg (\<lambda>v. onEither
         (\<lambda>b. b\<lparr>BuildOptions.JSXDev := v\<rparr>)
         (\<lambda>t. t\<lparr>TransformOptions.JSXDev := v\<rparr>) s))
     else if isBoolFlag arg ''--jsx-side-effects'' then
       Some (withBool X arg (\<lambda>v. onEither
         (\<lambda>b. b\<lparr>BuildOptions.JSXSideEffects := v\<rparr>)
         (\<lambda>t. t\<lparr>TransformOptions.JSXSideEffects := v\<rparr>) s))
     else if HasPrefix arg ''--banner='' \<and> transformOpts s \<noteq> None then
       Some (onTransform (\<lambda>t. t\<lparr>TransformOptions.Banner := after arg ''--banner=''\<rparr>) s)
     else if HasPrefix arg ''--footer='' \<and> transformOpts s \<noteq> None then
       Some (onTransform (\<lambda>t. t\<lparr>TransformOptions.Footer := after arg ''--footer=''\<rparr>) s)
     else if HasPrefix arg ''--banner:'' \<and> buildOpts s \<noteq> None then
       Some (let v = after arg ''--banner:''
             in case IndexByte v CHR ''='' of
                  None \<Rightarrow> Inl (Error (missingEquals X arg
                    (''You need to use either \"--banner:js=...\" or \"--banner:css=...\" to specify '' @
                     ''the language that the banner applies to.'')))
                | Some equals \<Rightarrow>
                    onBuild (\<lambda>b. b\<lparr>BuildOptions.Banner :=
                      (BuildOptions.Banner b)(take equals v \<mapsto> drop (equals + 1) v)\<rparr>) s)
     else if HasPrefix arg ''--footer:'' \<and> buildOpts s \<noteq> None then
       Some (let v = after arg ''--footer:''
             in case IndexByte v CHR ''='' of
                  None \<Rightarrow> Inl (Error (missingEquals X arg
                    (''You need to use either \"--footer:js=...\" or \"--footer:css=...\" to specify '' @
                     ''the language that the footer applies to.'')))
                | Some equals \<Rightarrow>
                    onBuild (\<lambda>b. b\<lparr>BuildOptions.Footer :=
                      (BuildOptions.Footer b)(take equals v \<mapsto> drop (equals + 1) v)\<rparr>) s)
     else None)"

text \<open>Lines 778 to 854; the last case is the entry point.\<close>

definition cases_logLimit_to_entryPoint ::
  "('l, 'e) externals \<Rightarrow> parseOptionsKind \<Rightarrow> string \<Rightarrow> ('l, 'e) parseState \<Rightarrow> ('l, 'e) step option" where
  "cases_logLimit_to_entryPoint X kind arg s =
    (if HasPrefix arg ''--log-limit='' then
       Some (let v = after arg ''--log-limit=''
             in case Atoi v of
                  None \<Rightarrow> Inl (Error (invalidValue X v arg
                    ''The log limit must be a non-negative integer.''))
                | Some limit \<Rightarrow>
                    if limit < 0 then Inl (Error (invalidValue X v arg
                      ''The log limit must be a non-negative integer.''))
                    else onEither (\<lambda>b. b\<lparr>BuildOptions.LogLimit := limit\<rparr>)
                                  (\<lambda>t. t\<lparr>TransformOptions.LogLimit := limit\<rparr>) s)
     else if HasPrefix arg ''--line-limit='' then
       Some (let v = after arg ''--line-limit=''
             in case Atoi v of
                  None \<Rightarrow> Inl (Error (invalidValue X v arg
                    ''The line limit must be a non-negative integer.''))
                | Some limit \<Rightarrow>
                    if limit < 0 then Inl (Error (invalidValue X v arg
                      ''The line limit must be a non-negative integer.''))
                    else onEither (\<lambda>b. b\<lparr>BuildOptions.LineLimit := limit\<rparr>)
                                  (\<lambda>t. t\<lparr>TransformOptions.LineLimit := limit\<rparr>) s)
     else if isBoolFlag arg ''--color'' then
       Some (withBool X arg (\<lambda>v. onEither
         (\<lambda>b. b\<lparr>BuildOptions.Color := (if v then ColorAlways else ColorNever)\<rparr>)
         (\<lambda>t. t\<lparr>TransformOptions.Color := (if v then ColorAlways else ColorNever)\<rparr>) s))
     else if HasPrefix arg ''--log-level='' then
       Some (let v = after arg ''--log-level=''
             in case parseLogLevel X v arg of
                  Inl e \<Rightarrow> Inl (Error e)
                | Inr logLevel \<Rightarrow>
                    onEither (\<lambda>b. b\<lparr>BuildOptions.LogLevel := logLevel\<rparr>)
                             (\<lambda>t. t\<lparr>TransformOptions.LogLevel := logLevel\<rparr>) s)
     else if HasPrefix arg [CHR 0x27, CHR ''-'', CHR ''-''] then
       Some (Inl (Error (MakeErrorWithNote
         (''Unexpected single quote character before flag: '' @ arg)
         (''This typically happens when attempting to use single quotes to quote arguments with '' @
          ''a shell that doesn't recognize single quotes. Try using double quote characters to '' @
          ''quote arguments instead.''))))
     else if \<not> HasPrefix arg ''-'' \<and> buildOpts s \<noteq> None then
       Some (case IndexByte arg CHR ''='' of
               Some equals \<Rightarrow>
                 onBuild (\<lambda>b. b\<lparr>EntryPointsAdvanced := EntryPointsAdvanced b @
                   [\<lparr>InputPath = drop (equals + 1) arg, OutputPath = take equals arg\<rparr>]\<rparr>) s
             | None \<Rightarrow> onBuild (\<lambda>b. b\<lparr>EntryPoints := EntryPoints b @ [arg]\<rparr>) s)
     else None)"

text \<open>
  Lines 856 to 999, the default case: the three tables of flag names, the note that
  hints at the mistake, and the error. \<^verbatim>\<open>arg[i:j]\<close> is \<^term>\<open>slice i j arg\<close>; every
  slice the case takes is within bounds, since its lower bound is the length of the
  dashes the argument starts with.
\<close>

definition slice :: "nat \<Rightarrow> nat \<Rightarrow> string \<Rightarrow> string" where
  "slice i j s = drop i (take j s)"

definition bare :: "string list" where
  "bare = [''allow-overwrite'', ''bundle'', ''ignore-annotations'', ''jsx-dev'',
     ''jsx-side-effects'', ''keep-names'', ''minify-identifiers'', ''minify-syntax'',
     ''minify-whitespace'', ''minify'', ''preserve-symlinks'', ''sourcemap'', ''splitting'',
     ''watch'']"

definition equalsFlags :: "string list" where
  "equalsFlags = [''abs-paths'', ''allow-overwrite'', ''asset-names'', ''banner'', ''bundle'',
     ''certfile'', ''charset'', ''chunk-names'', ''color'', ''conditions'', ''cors-origin'',
     ''drop-labels'', ''entry-names'', ''footer'', ''format'', ''global-name'',
     ''ignore-annotations'', ''jsx-factory'', ''jsx-fragment'', ''jsx-import-source'', ''jsx'',
     ''keep-names'', ''keyfile'', ''legal-comments'', ''loader'', ''log-level'', ''log-limit'',
     ''main-fields'', ''mangle-cache'', ''mangle-props'', ''mangle-quoted'', ''metafile'',
     ''minify-identifiers'', ''minify-syntax'', ''minify-whitespace'', ''minify'', ''outbase'',
     ''outdir'', ''outfile'', ''packages'', ''platform'', ''preserve-symlinks'', ''public-path'',
     ''reserve-props'', ''resolve-extensions'', ''serve-fallback'', ''serve'', ''servedir'',
     ''source-root'', ''sourcefile'', ''sourcemap'', ''sources-content'', ''splitting'', ''target'',
     ''tree-shaking'', ''tsconfig-raw'', ''tsconfig'', ''watch'', ''watch-delay'']"

definition colonFlags :: "string list" where
  "colonFlags = [''alias'', ''banner'', ''define'', ''drop'', ''external'', ''footer'', ''inject'',
     ''loader'', ''log-override'', ''out-extension'', ''pure'', ''supported'']"

definition useInstead :: "('l, 'e) externals \<Rightarrow> string \<Rightarrow> string \<Rightarrow> string \<Rightarrow> string" where
  "useInstead X fix arg why = ''Use '' @ Quote X fix @ '' instead of '' @ Quote X arg @ ''. '' @ why"

definition doubleDashNote :: "('l, 'e) externals \<Rightarrow> string \<Rightarrow> string" where
  "doubleDashNote X arg =
     (let note =
            (case IndexByte arg CHR ''='' of
               None \<Rightarrow> []
             | Some i \<Rightarrow>
                 if slice 2 i arg \<in> set colonFlags
                 then useInstead X (take i arg @ '':'' @ drop (i + 1) arg) arg
                   ''Flags that can be re-specified multiple times use \":\" instead of \"=\".''
                 else [])
      in case IndexByte arg CHR '':'' of
           None \<Rightarrow> note
         | Some i \<Rightarrow>
             if slice 2 i arg \<in> set equalsFlags
             then useInstead X (take i arg @ ''='' @ drop (i + 1) arg) arg
               ''Flags that can only be specified once use \"=\" instead of \":\".''
             else note)"

text \<open>
  The chain of the single-dash hint declares \<^verbatim>\<open>i\<close> twice: the first two tests read
  the index of \<^verbatim>\<open>=\<close>, the last two the index of \<^verbatim>\<open>:\<close>. The result is
  \<^verbatim>\<open>isValid\<close> and \<^verbatim>\<open>fix\<close>.
\<close>

definition singleDashFix :: "string \<Rightarrow> bool \<times> string" where
  "singleDashFix arg =
     (let isValid = (drop 1 arg \<in> set bare);
          fix = ''-'' @ arg;
          eq = IndexByte arg CHR ''=''
      in if eq \<noteq> None \<and> slice 1 (the eq) arg \<in> set equalsFlags then (True, fix)
         else if eq \<noteq> None \<and> slice 1 (the eq) arg \<in> set colonFlags
           then (True, ''-'' @ take (the eq) arg @ '':'' @ drop (the eq + 1) arg)
         else (let co = IndexByte arg CHR '':''
               in if co \<noteq> None \<and> slice 1 (the co) arg \<in> set colonFlags then (True, fix)
                  else if co \<noteq> None \<and> slice 1 (the co) arg \<in> set equalsFlags
                    then (True, ''-'' @ take (the co) arg @ ''='' @ drop (the co + 1) arg)
                  else (isValid, fix)))"

definition flagNote :: "('l, 'e) externals \<Rightarrow> string \<Rightarrow> string" where
  "flagNote X arg =
     (if arg = ''-o'' then
        ''Use \"--outfile=\" to configure the output file instead of \"-o\".''
      else if arg = ''-v'' then
        ''Use \"--log-level=verbose\" to generate verbose logs instead of \"-v\".''
      else if HasPrefix arg ''--'' then doubleDashNote X arg
      else if HasPrefix arg ''-'' then
        (case singleDashFix arg of
           (isValid, fix) \<Rightarrow>
             if isValid
             then useInstead X fix arg
               ''Flags are always specified with two dashes instead of one dash.''
             else [])
      else [])"

definition invalidFlag :: "('l, 'e) externals \<Rightarrow> string \<Rightarrow> ('l, 'e) parseState \<Rightarrow> ErrorWithNote" where
  "invalidFlag X arg s =
     (if buildOpts s \<noteq> None
      then MakeErrorWithNote (''Invalid build flag: '' @ Quote X arg) (flagNote X arg)
      else MakeErrorWithNote (''Invalid transform flag: '' @ Quote X arg) (flagNote X arg))"

subsection \<open>One argument, the loop, and \<^verbatim>\<open>parseOptionsImpl\<close>\<close>

definition parseArg ::
  "('l, 'e) externals \<Rightarrow> parseOptionsKind \<Rightarrow> string \<Rightarrow> ('l, 'e) parseState \<Rightarrow> ('l, 'e) step" where
  "parseArg X kind arg s =
     (case cases_bundle_to_dropLabels X kind arg s of
        Some r \<Rightarrow> r
      | None \<Rightarrow>
     (case cases_legalComments_to_assetNames X kind arg s of
        Some r \<Rightarrow> r
      | None \<Rightarrow>
     (case cases_define_to_outExtension X kind arg s of
        Some r \<Rightarrow> r
      | None \<Rightarrow>
     (case cases_platform_to_footer X kind arg s of
        Some r \<Rightarrow> r
      | None \<Rightarrow>
     (case cases_logLimit_to_entryPoint X kind arg s of
        Some r \<Rightarrow> r
      | None \<Rightarrow> Inl (Error (invalidFlag X arg s)))))))"

text \<open>
  \<^verbatim>\<open>for _, arg := range osArgs\<close>. A case either fails before it writes anything or
  writes and goes on, so the state at a failure is the state before that argument.
\<close>

fun parseArgs ::
  "('l, 'e) externals \<Rightarrow> parseOptionsKind \<Rightarrow> string list \<Rightarrow> ('l, 'e) parseState \<Rightarrow>
   ('l, 'e) parseState \<times> failure option" where
  "parseArgs X kind [] s = (s, None)"
| "parseArgs X kind (arg # rest) s =
     (case parseArg X kind arg s of
        Inl f \<Rightarrow> (s, Some f)
      | Inr s' \<Rightarrow> parseArgs X kind rest s')"

text \<open>
  The result of \<^verbatim>\<open>parseOptionsImpl\<close>: the two option structs as the call leaves them
  behind the pointers, the returned extras, and the returned error (or the panic).
\<close>

type_synonym ('l, 'e) parsed =
  "('l, 'e) BuildOptions option \<times> ('l, 'e) TransformOptions option \<times>
   parseOptionsExtras \<times> failure option"

definition parseOptionsImpl ::
  "('l, 'e) externals \<Rightarrow> string list \<Rightarrow> ('l, 'e) BuildOptions option \<Rightarrow>
   ('l, 'e) TransformOptions option \<Rightarrow> parseOptionsKind \<Rightarrow> ('l, 'e) parsed" where
  "parseOptionsImpl X osArgs buildOptsIn transformOptsIn kind =
     (case parseArgs X kind osArgs
             \<lparr>buildOpts = buildOptsIn, transformOpts = transformOptsIn, extras = noExtras,
              hasBareSourceMapFlag = False\<rparr> of
        (s, Some f) \<Rightarrow> (buildOpts s, transformOpts s, noExtras, Some f)
      | (s, None) \<Rightarrow>
          (case buildOpts s of
             None \<Rightarrow> (None, transformOpts s, extras s, None)
           | Some b \<Rightarrow>
               if hasBareSourceMapFlag s \<and> Outfile b = [] \<and> Outdir b = []
               then (Some (b\<lparr>BuildOptions.Sourcemap := SourceMapInline\<rparr>), transformOpts s,
                     extras s, None)
               else (Some b, transformOpts s, extras s, None)))"

subsection \<open>Mode selection: \<^verbatim>\<open>parseOptionsForRun\<close>\<close>

text \<open>Lines 23 to 40: the zero value of every field, and empty maps where Go makes one.\<close>

definition newBuildOptions :: "('l, 'e) BuildOptions" where
  "newBuildOptions =
     \<lparr>BuildOptions.Color = ColorIfTerminal, LogLevel = LogLevelSilent, LogLimit = 0,
      LogOverride = Map.empty, AbsPaths = {}, Sourcemap = SourceMapNone, SourceRoot = [],
      SourcesContent = SourcesContentInclude, Target = DefaultTarget, Engines = [],
      Supported = Map.empty, MangleProps = [], ReserveProps = [],
      MangleQuoted = MangleQuotedDefault, MangleCache = None, Drop = {}, DropLabels = [],
      MinifyWhitespace = False,
      MinifyIdentifiers = False, MinifySyntax = False, LineLimit = 0, Charset = CharsetDefault,
      TreeShaking = TreeShakingDefault, IgnoreAnnotations = False,
      LegalComments = LegalCommentsDefault, JSX = JSXTransform, JSXFactory = [],
      JSXFragment = [], JSXImportSource = [], JSXDev = False, JSXSideEffects = False,
      Define = Map.empty, Pure = [], KeepNames = False, GlobalName = [], Bundle = False,
      PreserveSymlinks = False, Splitting = False, Outfile = [], Metafile = False, Outdir = [],
      Outbase = [], AbsWorkingDir = [], Platform = PlatformDefault, Format = FormatDefault,
      Packages = PackagesDefault, External = [], MainFields = [], Conditions = [],
      Loader = Map.empty, ResolveExtensions = [], Tsconfig = [], TsconfigRaw = [],
      OutExtension = None, PublicPath = [], Inject = [], Banner = Map.empty,
      Footer = Map.empty, NodePaths = [], EntryNames = [], ChunkNames = [], AssetNames = [],
      EntryPoints = [], EntryPointsAdvanced = [], Stdin = None, Write = False,
      AllowOverwrite = False, Alias = None\<rparr>"

definition newTransformOptions :: "('l, 'e) externals \<Rightarrow> ('l, 'e) TransformOptions" where
  "newTransformOptions X =
     \<lparr>TransformOptions.Color = ColorIfTerminal, LogLevel = LogLevelSilent, LogLimit = 0,
      LogOverride = Map.empty, AbsPaths = {}, Sourcemap = SourceMapNone, SourceRoot = [],
      SourcesContent = SourcesContentInclude, Target = DefaultTarget, Engines = [],
      Supported = Map.empty, Platform = PlatformDefault, Format = FormatDefault,
      GlobalName = [], MangleProps = [], ReserveProps = [], MangleQuoted = MangleQuotedDefault,
      Drop = {}, DropLabels = [], MinifyWhitespace = False, MinifyIdentifiers = False,
      MinifySyntax = False, LineLimit = 0, Charset = CharsetDefault,
      TreeShaking = TreeShakingDefault, IgnoreAnnotations = False,
      LegalComments = LegalCommentsDefault, JSX = JSXTransform, JSXFactory = [],
      JSXFragment = [], JSXImportSource = [], JSXDev = False, JSXSideEffects = False,
      TsconfigRaw = [], Banner = [], Footer = [], Define = Map.empty, Pure = [],
      KeepNames = False, Sourcefile = [], Loader = LoaderNone X\<rparr>"

definition isArgForBuild :: "string \<Rightarrow> bool" where
  "isArgForBuild arg = (\<not> HasPrefix arg ''-'' \<or> arg = ''--bundle'')"

text \<open>
  The two branches of \<^verbatim>\<open>parseOptionsForRun\<close> (lines 1074 to 1085 and 1090 to 1116).
  \<^verbatim>\<open>options\<close> is a local struct whose address goes to the parser, which leaves the
  pointer as it is; the model reads the struct back from the parser's result, and has a
  branch for a nil pointer there only because the result type has one.
\<close>

definition runAsBuild :: "('l, 'e) externals \<Rightarrow> string list \<Rightarrow> ('l, 'e) parsed" where
  "runAsBuild X osArgs =
     (let options = newBuildOptions
            \<lparr>BuildOptions.LogLimit := 6, BuildOptions.LogLevel := LogLevelInfo, Write := True\<rparr>
      in case parseOptionsImpl X osArgs (Some options) None kindInternal of
           (b, t, ex, failed) \<Rightarrow>
             (case failed of
                Some f \<Rightarrow> (None, None, noExtras, Some f)
              | None \<Rightarrow> (b, None, ex, None)))"

definition sourceMapMode :: "SourceMap \<Rightarrow> string" where
  "sourceMapMode m =
     (case m of
        SourceMapExternal \<Rightarrow> ''external''
      | SourceMapInlineAndExternal \<Rightarrow> ''both''
      | SourceMapLinked \<Rightarrow> ''linked''
      | _ \<Rightarrow> [])"

definition runAsTransform :: "('l, 'e) externals \<Rightarrow> string list \<Rightarrow> ('l, 'e) parsed" where
  "runAsTransform X osArgs =
     (let options = (newTransformOptions X)
            \<lparr>TransformOptions.LogLimit := 6, TransformOptions.LogLevel := LogLevelInfo\<rparr>
      in case parseOptionsImpl X osArgs None (Some options) kindInternal of
           (b, t, ex, failed) \<Rightarrow>
             (case failed of
                Some f \<Rightarrow> (None, None, noExtras, Some f)
              | None \<Rightarrow>
                  (case t of
                     None \<Rightarrow> (None, None, noExtras, Some NilDereference)
                   | Some options' \<Rightarrow>
                       if TransformOptions.Sourcemap options' \<noteq> SourceMapNone \<and>
                          TransformOptions.Sourcemap options' \<noteq> SourceMapInline
                       then (None, None, noExtras, Some (Error (MakeErrorWithNote
                              (''Use \"--sourcemap\" instead of \"--sourcemap='' @
                               sourceMapMode (TransformOptions.Sourcemap options') @
                               ''\" when transforming stdin'')
                              (''Using esbuild to transform stdin only generates one output '' @
                               ''file. You cannot use the '' @
                               Quote X (sourceMapMode (TransformOptions.Sourcemap options')) @
                               '' source map mode since that needs to generate two output '' @
                               ''files.''))))
                       else (None, Some options', noExtras, None))))"

text \<open>
  \<^verbatim>\<open>for _, arg := range osArgs { if isArgForBuild(arg) { ... return } }\<close>, then the
  transform branch. The first argument is the whole list, the second what the loop has
  still to visit.
\<close>

fun parseOptionsForRun_scan ::
  "('l, 'e) externals \<Rightarrow> string list \<Rightarrow> string list \<Rightarrow> ('l, 'e) parsed" where
  "parseOptionsForRun_scan X osArgs [] = runAsTransform X osArgs"
| "parseOptionsForRun_scan X osArgs (arg # rest) =
     (if isArgForBuild arg then runAsBuild X osArgs else parseOptionsForRun_scan X osArgs rest)"

definition parseOptionsForRun :: "('l, 'e) externals \<Rightarrow> string list \<Rightarrow> ('l, 'e) parsed" where
  "parseOptionsForRun X osArgs = parseOptionsForRun_scan X osArgs osArgs"

subsection \<open>Serve options: \<^verbatim>\<open>parseServeOptionsImpl\<close>\<close>

record ServeOptions =
  Port :: int
  Host :: string
  Servedir :: string
  Keyfile :: string
  Certfile :: string
  Fallback :: string
  CORS_Origin :: "string list"

text \<open>The locals of lines 1413 to 1422, which the filter loop fills.\<close>

record serveFlags =
  portText :: string
  servedir :: string
  keyfile :: string
  certfile :: string
  fallback :: string
  corsOrigin :: "string list"
  filteredArgs :: "string list"

definition serveFlag :: "string \<Rightarrow> serveFlags \<Rightarrow> serveFlags" where
  "serveFlag arg f =
     (if arg = ''--serve'' then f
      else if HasPrefix arg ''--serve='' then f\<lparr>portText := after arg ''--serve=''\<rparr>
      else if HasPrefix arg ''--servedir='' then f\<lparr>servedir := after arg ''--servedir=''\<rparr>
      else if HasPrefix arg ''--keyfile='' then f\<lparr>keyfile := after arg ''--keyfile=''\<rparr>
      else if HasPrefix arg ''--certfile='' then f\<lparr>certfile := after arg ''--certfile=''\<rparr>
      else if HasPrefix arg ''--serve-fallback='' then
        f\<lparr>fallback := after arg ''--serve-fallback=''\<rparr>
      else if HasPrefix arg ''--cors-origin='' then
        f\<lparr>corsOrigin := Split (after arg ''--cors-origin='') CHR '',''\<rparr>
      else f\<lparr>filteredArgs := filteredArgs f @ [arg]\<rparr>)"

definition serveFlagsOf :: "string list \<Rightarrow> serveFlags" where
  "serveFlagsOf osArgs =
     fold serveFlag osArgs
       \<lparr>portText = [], servedir = [], keyfile = [], certfile = [], fallback = [],
        corsOrigin = [], filteredArgs = []\<rparr>"

text \<open>
  The errors of \<^verbatim>\<open>parseServeOptionsImpl\<close>: the one of \<^verbatim>\<open>net.SplitHostPort\<close>, the
  one of \<^verbatim>\<open>strconv.ParseInt\<close>, and its own \<^verbatim>\<open>Invalid port number\<close>.
\<close>

datatype serveError = AddrError | NumError string | InvalidPortNumber string

text \<open>
  Lines 1443 to 1450. \<^verbatim>\<open>net.SplitHostPort\<close> belongs to Go's library and is a
  parameter: \<^term>\<open>None\<close> is its error, \<^term>\<open>Some (host, port)\<close> its result.
\<close>

definition hostAndPortText ::
  "(string \<Rightarrow> (string \<times> string) option) \<Rightarrow> string \<Rightarrow> serveError + (string \<times> string)" where
  "hostAndPortText SplitHostPort text =
     (if CHR '':'' \<in> set text
      then (case SplitHostPort text of
              None \<Rightarrow> Inl AddrError
            | Some (host, port) \<Rightarrow> Inr (host, port))
      else Inr ([], text))"

text \<open>Lines 1452 to 1467; \<^verbatim>\<open>port\<close> stays 0 when the text is empty.\<close>

definition parsePort :: "string \<Rightarrow> serveError + int" where
  "parsePort text =
     (if text \<noteq> [] then
        (case ParseInt text 32 of
           None \<Rightarrow> Inl (NumError text)
         | Some port \<Rightarrow>
             if port < 0 \<or> port > 0xFFFF then Inl (InvalidPortNumber text)
             else if port = 0 then Inr (- 1)
             else Inr port)
      else Inr 0)"

definition parseServeOptionsImpl ::
  "(string \<Rightarrow> (string \<times> string) option) \<Rightarrow> string list \<Rightarrow>
   serveError + (ServeOptions \<times> string list)" where
  "parseServeOptionsImpl SplitHostPort osArgs =
     (let f = serveFlagsOf osArgs
      in case hostAndPortText SplitHostPort (portText f) of
           Inl e \<Rightarrow> Inl e
         | Inr (host, text) \<Rightarrow>
             (case parsePort text of
                Inl e \<Rightarrow> Inl e
              | Inr port \<Rightarrow>
                  Inr (\<lparr>Port = port, Host = host, Servedir = servedir f, Keyfile = keyfile f,
                        Certfile = certfile f, Fallback = fallback f,
                        CORS_Origin = corsOrigin f\<rparr>,
                       filteredArgs f)))"

subsection \<open>The runner: \<^verbatim>\<open>runImpl\<close> and its post-build writers\<close>

datatype analyzeMode = analyzeDisabled | analyzeEnabled | analyzeVerbose

text \<open>
  Lines 1136 to 1156. The inner loop writes the kept arguments over the front of the
  slice it reads and returns that front; the model collects them.
\<close>

fun filterAnalyzeFlags_loop ::
  "string list \<Rightarrow> string list \<Rightarrow> analyzeMode \<Rightarrow> string list \<times> analyzeMode" where
  "filterAnalyzeFlags_loop [] kept analyze = (kept, analyze)"
| "filterAnalyzeFlags_loop (arg # rest) kept analyze =
     (if arg = ''--analyze'' then filterAnalyzeFlags_loop rest kept analyzeEnabled
      else if arg = ''--analyze=verbose'' then filterAnalyzeFlags_loop rest kept analyzeVerbose
      else filterAnalyzeFlags_loop rest (kept @ [arg]) analyze)"

fun filterAnalyzeFlags_scan :: "string list \<Rightarrow> string list \<Rightarrow> string list \<times> analyzeMode" where
  "filterAnalyzeFlags_scan osArgs [] = (osArgs, analyzeDisabled)"
| "filterAnalyzeFlags_scan osArgs (arg # rest) =
     (if isArgForBuild arg then filterAnalyzeFlags_loop osArgs [] analyzeDisabled
      else filterAnalyzeFlags_scan osArgs rest)"

definition filterAnalyzeFlags :: "string list \<Rightarrow> string list \<times> analyzeMode" where
  "filterAnalyzeFlags osArgs = filterAnalyzeFlags_scan osArgs osArgs"

text \<open>
  What the runner does to the world is a trace of effects, in the order in which they
  happen.
\<close>

datatype effect =
    PrintErrorToStderr "string list" string
  | PrintErrorWithNoteToStderr "string list" string string
  | PrintAnalysis string bool
  | BeforeFileOpen
  | AfterFileClose
  | MkdirAll string
  | WriteFile string string
  | StdoutWrite string

record BuildResult =
  Errors :: "string list"
  Metafile :: string
  MangleCache :: "mangleCache option"

record TransformResult =
  Errors :: "string list"
  Code :: string

text \<open>
  The world the runner calls into: the environment, standard input, the file system
  (\<^verbatim>\<open>internal/fs\<close>, \<^verbatim>\<open>ioutil\<close>), the mangle cache reader and printer of this
  package, and the public API (\<^verbatim>\<open>api.Context\<close>, \<^verbatim>\<open>api.Build\<close>,
  \<^verbatim>\<open>api.Transform\<close>). An \<^typ>\<open>string option\<close> result is Go's \<^verbatim>\<open>error\<close>:
  \<^term>\<open>None\<close> is nil, \<^term>\<open>Some m\<close> an error whose text is \<open>m\<close>. A build calls the
  \<^verbatim>\<open>OnEnd\<close> callbacks of the plugins with its result; in watch mode it does so
  for each of the rebuilds in \<open>watchResults\<close>.
\<close>

record ('l, 'e) host =
  LookupEnv_NODE_PATH :: "string option"
  CheckIfWindows :: bool
  ReadAll_Stdin :: "string + string"
  Getwd :: string
  RealFS_err :: "string \<Rightarrow> string option"
  Abs :: "string \<Rightarrow> string option"
  Dir :: "string \<Rightarrow> string"
  MkdirAll_err :: "string \<Rightarrow> string option"
  WriteFile_err :: "string \<Rightarrow> string \<Rightarrow> string option"
  parseMangleCache :: "string list \<Rightarrow> string \<Rightarrow> effect list \<times> (mangleCache \<times> string list) option"
  printMangleCache :: "mangleCache \<Rightarrow> string list \<Rightarrow> bool \<Rightarrow> string"
  Context_err :: "('l, 'e) BuildOptions \<Rightarrow> bool"
  watchResults :: "('l, 'e) BuildOptions \<Rightarrow> BuildResult list"
  Build :: "('l, 'e) BuildOptions \<Rightarrow> BuildResult"
  Transform :: "string \<Rightarrow> ('l, 'e) TransformOptions \<Rightarrow> TransformResult"

text \<open>
  What a writer closure captures besides \<^verbatim>\<open>osArgs\<close> and the \<^verbatim>\<open>err\<close> of
  \<^verbatim>\<open>runImpl\<close>: the error of \<^verbatim>\<open>fs.RealFS\<close>, the absolute path and its directory
  (both empty when \<^verbatim>\<open>fs.RealFS\<close> failed), and for the mangle cache the order of its
  keys.
\<close>

record writer =
  realFSErr :: "string option"
  absPath :: string
  absDir :: string
  order :: "string list"

text \<open>
  Lines 1280 to 1290 and 1326 to 1337: create the directory, then write the file;
  either failure is printed.
\<close>

definition writeOut ::
  "('l, 'e) host \<Rightarrow> string list \<Rightarrow> writer \<Rightarrow> string \<Rightarrow> effect list \<Rightarrow> effect list" where
  "writeOut H osArgs wr bytes tr =
     (case MkdirAll_err H (absDir wr) of
        Some m \<Rightarrow>
          tr @ [BeforeFileOpen, MkdirAll (absDir wr),
                PrintErrorToStderr osArgs (''Failed to create output directory: '' @ m),
                AfterFileClose]
      | None \<Rightarrow>
          (case WriteFile_err H (absPath wr) bytes of
             Some m \<Rightarrow>
               tr @ [BeforeFileOpen, MkdirAll (absDir wr), WriteFile (absPath wr) bytes,
                     PrintErrorToStderr osArgs (''Failed to write to output file: '' @ m),
                     AfterFileClose]
           | None \<Rightarrow>
               tr @ [BeforeFileOpen, MkdirAll (absDir wr), WriteFile (absPath wr) bytes,
                     AfterFileClose]))"

text \<open>
  The closure \<^verbatim>\<open>writeMetafile\<close> (lines 1272 to 1291). \<^term>\<open>Inl\<close> is the panic, with
  the text it is raised with; \<^term>\<open>Inr\<close> is the trace after the call.
\<close>

definition writeMetafile ::
  "('l, 'e) host \<Rightarrow> string list \<Rightarrow> ErrorWithNote option \<Rightarrow> writer \<Rightarrow> string \<Rightarrow>
   effect list \<Rightarrow> string + effect list" where
  "writeMetafile H osArgs err wr json tr =
     (if json = [] \<or> realFSErr wr \<noteq> None then Inr tr
      else (case err of
              Some e \<Rightarrow> Inl (Text e)
            | None \<Rightarrow> Inr (writeOut H osArgs wr json tr)))"

text \<open>The closure \<^verbatim>\<open>writeMangleCache\<close> (lines 1318 to 1338).\<close>

definition writeMangleCache ::
  "('l, 'e) host \<Rightarrow> string list \<Rightarrow> ErrorWithNote option \<Rightarrow> ('l, 'e) BuildOptions \<Rightarrow> writer \<Rightarrow>
   mangleCache option \<Rightarrow> effect list \<Rightarrow> string + effect list" where
  "writeMangleCache H osArgs err buildOptions wr cache tr =
     (case cache of
        None \<Rightarrow> Inr tr
      | Some m \<Rightarrow>
          if realFSErr wr \<noteq> None then Inr tr
          else (case err of
                  Some e \<Rightarrow> Inl (Text e)
                | None \<Rightarrow>
                    Inr (writeOut H osArgs wr
                      (printMangleCache H m (order wr)
                         (BuildOptions.Charset buildOptions = CharsetASCII)) tr)))"

text \<open>
  How a run ends: \<^verbatim>\<open>runImpl\<close> returns an exit code, the process panics, the run
  blocks for ever in watch mode, or the arguments ask for the server and
  \<^verbatim>\<open>serveImpl\<close> takes over.
\<close>

datatype outcome = Exit int | Panicked string | Blocked | ServeImpl "string list"

definition isServeArg :: "string \<Rightarrow> bool" where
  "isServeArg arg =
     (arg = ''--serve'' \<or> HasPrefix arg ''--serve='' \<or> HasPrefix arg ''--servedir='' \<or>
      HasPrefix arg ''--serve-fallback='')"

text \<open>Lines 1222 to 1244: read standard input when there are no entry points.\<close>

definition readStdin ::
  "('l, 'e) externals \<Rightarrow> ('l, 'e) host \<Rightarrow> string list \<Rightarrow> ('l, 'e) BuildOptions \<Rightarrow> effect list \<Rightarrow>
   (int \<times> effect list) + (('l, 'e) BuildOptions \<times> effect list)" where
  "readStdin X H osArgs b tr =
     (if length (EntryPoints b) + length (EntryPointsAdvanced b) = 0 then
        (case ReadAll_Stdin H of
           Inl m \<Rightarrow> Inl (1, tr @ [PrintErrorToStderr osArgs (''Could not read from stdin: '' @ m)])
         | Inr bytes \<Rightarrow>
             Inr (b\<lparr>Stdin := Some ((stdinOrNew X b)\<lparr>Contents := bytes, ResolveDir := Getwd H\<rparr>)\<rparr>,
                  tr))
      else (case Stdin b of
              Some i \<Rightarrow>
                Inl (1, tr @ [PrintErrorToStderr osArgs
                  (if StdinOptions.Sourcefile i \<noteq> []
                   then ''\"sourcefile\" only applies when reading from stdin''
                   else ''\"loader\" without extension only applies when reading from stdin'')])
            | None \<Rightarrow> Inr (b, tr)))"

text \<open>Lines 1249 to 1270: validate the metafile path ahead of the build.\<close>

definition metafileWriter ::
  "('l, 'e) host \<Rightarrow> string list \<Rightarrow> ('l, 'e) BuildOptions \<Rightarrow> parseOptionsExtras \<Rightarrow> effect list \<Rightarrow>
   (int \<times> effect list) + (writer option \<times> effect list)" where
  "metafileWriter H osArgs b ex tr =
     (case metafile ex of
        None \<Rightarrow> Inr (None, tr)
      | Some path \<Rightarrow>
          if Outfile b = [] \<and> Outdir b = [] then
            Inl (1, tr @ [PrintErrorToStderr osArgs
                   ''Cannot use \"metafile\" without an output path''])
          else (case RealFS_err H (AbsWorkingDir b) of
                  Some m \<Rightarrow>
                    Inr (Some \<lparr>realFSErr = Some m, absPath = [], absDir = [], order = []\<rparr>, tr)
                | None \<Rightarrow>
                    (case Abs H path of
                       None \<Rightarrow>
                         Inl (1, tr @ [PrintErrorToStderr osArgs (''Invalid metafile path: '' @ path)])
                     | Some p \<Rightarrow>
                         Inr (Some \<lparr>realFSErr = None, absPath = p, absDir = Dir H p, order = []\<rparr>,
                              tr))))"

text \<open>Lines 1296 to 1316: the same for the mangle cache, which is also read here.\<close>

definition mangleCacheWriter ::
  "('l, 'e) host \<Rightarrow> string list \<Rightarrow> ('l, 'e) BuildOptions \<Rightarrow> parseOptionsExtras \<Rightarrow> effect list \<Rightarrow>
   (int \<times> effect list) + (writer option \<times> ('l, 'e) BuildOptions \<times> effect list)" where
  "mangleCacheWriter H osArgs b ex tr =
     (case mangleCache ex of
        None \<Rightarrow> Inr (None, b, tr)
      | Some path \<Rightarrow>
          (case RealFS_err H (AbsWorkingDir b) of
             Some m \<Rightarrow>
               Inr (Some \<lparr>realFSErr = Some m, absPath = [], absDir = [], order = []\<rparr>, b, tr)
           | None \<Rightarrow>
               (case Abs H path of
                  None \<Rightarrow>
                    Inl (1, tr @ [PrintErrorToStderr osArgs (''Invalid mangle cache path: '' @ path)])
                | Some p \<Rightarrow>
                    (case parseMangleCache H osArgs path of
                       (printed, None) \<Rightarrow> Inl (1, tr @ printed)
                     | (printed, Some (cache, keys)) \<Rightarrow>
                         Inr (Some \<lparr>realFSErr = None, absPath = p, absDir = Dir H p, order = keys\<rparr>,
                              b\<lparr>BuildOptions.MangleCache := Some cache\<rparr>, tr @ printed)))))"

text \<open>
  The \<^verbatim>\<open>OnEnd\<close> callbacks, in the order in which the plugins are appended: the
  analysis (lines 1164 to 1175), then the post-build actions (lines 1345 to 1357).
\<close>

definition printAnalysis :: "analyzeMode \<Rightarrow> BuildResult \<Rightarrow> effect list \<Rightarrow> effect list" where
  "printAnalysis analyze result tr =
     (if analyze \<noteq> analyzeDisabled \<and> BuildResult.Metafile result \<noteq> []
      then tr @ [PrintAnalysis (BuildResult.Metafile result) (analyze = analyzeVerbose)]
      else tr)"

definition postBuildActions ::
  "('l, 'e) host \<Rightarrow> string list \<Rightarrow> ErrorWithNote option \<Rightarrow> ('l, 'e) BuildOptions \<Rightarrow>
   writer option \<Rightarrow> writer option \<Rightarrow> BuildResult \<Rightarrow> effect list \<Rightarrow> string + effect list" where
  "postBuildActions H osArgs err b metafileW mangleCacheW result tr =
     (case (case metafileW of
              None \<Rightarrow> Inr tr
            | Some wr \<Rightarrow> writeMetafile H osArgs err wr (BuildResult.Metafile result) tr) of
        Inl p \<Rightarrow> Inl p
      | Inr tr' \<Rightarrow>
          (case mangleCacheW of
             None \<Rightarrow> Inr tr'
           | Some wr \<Rightarrow>
               writeMangleCache H osArgs err b wr (BuildResult.MangleCache result) tr'))"

fun onEnd ::
  "('l, 'e) host \<Rightarrow> string list \<Rightarrow> ErrorWithNote option \<Rightarrow> ('l, 'e) BuildOptions \<Rightarrow> analyzeMode \<Rightarrow>
   writer option \<Rightarrow> writer option \<Rightarrow> BuildResult list \<Rightarrow> effect list \<Rightarrow> string + effect list" where
  "onEnd H osArgs err b analyze metafileW mangleCacheW [] tr = Inr tr"
| "onEnd H osArgs err b analyze metafileW mangleCacheW (result # results) tr =
     (case postBuildActions H osArgs err b metafileW mangleCacheW result
             (printAnalysis analyze result tr) of
        Inl p \<Rightarrow> Inl p
      | Inr tr' \<Rightarrow> onEnd H osArgs err b analyze metafileW mangleCacheW results tr')"

text \<open>
  Lines 1361 to 1384: watch mode, which never returns once the context is valid, or one
  build and its exit code.
\<close>

definition watchOrBuild ::
  "('l, 'e) host \<Rightarrow> string list \<Rightarrow> ErrorWithNote option \<Rightarrow> analyzeMode \<Rightarrow>
   ('l, 'e) BuildOptions \<Rightarrow> parseOptionsExtras \<Rightarrow> writer option \<Rightarrow> writer option \<Rightarrow>
   effect list \<Rightarrow> outcome \<times> effect list" where
  "watchOrBuild H osArgs err analyze b ex metafileW mangleCacheW tr =
     (if watch ex then
        (if Context_err H b then (Exit 1, tr)
         else (case onEnd H osArgs err b analyze metafileW mangleCacheW (watchResults H b) tr of
                 Inl p \<Rightarrow> (Panicked p, tr)
               | Inr tr' \<Rightarrow> (Blocked, tr')))
      else
        (case onEnd H osArgs err b analyze metafileW mangleCacheW [Build H b] tr of
           Inl p \<Rightarrow> (Panicked p, tr)
         | Inr tr' \<Rightarrow>
             (if BuildResult.Errors (Build H b) \<noteq> [] then Exit 1 else Exit 0, tr')))"

text \<open>
  Lines 1199 to 1220: the analysis plugin asks for a metafile, and \<^verbatim>\<open>NODE_PATH\<close>
  fills \<^verbatim>\<open>NodePaths\<close>.
\<close>

definition withAnalysisAndNodePaths ::
  "('l, 'e) host \<Rightarrow> analyzeMode \<Rightarrow> ('l, 'e) BuildOptions \<Rightarrow> ('l, 'e) BuildOptions" where
  "withAnalysisAndNodePaths H analyze b0 =
     (let b1 = (if analyze \<noteq> analyzeDisabled then b0\<lparr>BuildOptions.Metafile := True\<rparr> else b0)
      in case LookupEnv_NODE_PATH H of
           Some v \<Rightarrow>
             b1\<lparr>NodePaths := splitWithEmptyCheck v
                   (if CheckIfWindows H then CHR '';'' else CHR '':'')\<rparr>
         | None \<Rightarrow> b1)"

text \<open>The build branch of the switch of \<^verbatim>\<open>runImpl\<close> (lines 1199 to 1384).\<close>

definition runBuild ::
  "('l, 'e) externals \<Rightarrow> ('l, 'e) host \<Rightarrow> string list \<Rightarrow> analyzeMode \<Rightarrow> ('l, 'e) BuildOptions \<Rightarrow>
   parseOptionsExtras \<Rightarrow> ErrorWithNote option \<Rightarrow> outcome \<times> effect list" where
  "runBuild X H osArgs analyze b0 ex err =
     (case readStdin X H osArgs (withAnalysisAndNodePaths H analyze b0) [] of
        Inl (code, tr) \<Rightarrow> (Exit code, tr)
      | Inr (b3, tr) \<Rightarrow>
          (case metafileWriter H osArgs b3 ex tr of
             Inl (code, tr) \<Rightarrow> (Exit code, tr)
           | Inr (metafileW, tr) \<Rightarrow>
               (case mangleCacheWriter H osArgs b3 ex tr of
                  Inl (code, tr) \<Rightarrow> (Exit code, tr)
                | Inr (mangleCacheW, b4, tr) \<Rightarrow>
                    watchOrBuild H osArgs err analyze b4 ex metafileW mangleCacheW tr)))"

text \<open>The transform branch (lines 1386 to 1402).\<close>

definition runTransform ::
  "('l, 'e) host \<Rightarrow> string list \<Rightarrow> ('l, 'e) TransformOptions \<Rightarrow> outcome \<times> effect list" where
  "runTransform H osArgs t =
     (case ReadAll_Stdin H of
        Inl m \<Rightarrow> (Exit 1, [PrintErrorToStderr osArgs (''Could not read from stdin: '' @ m)])
      | Inr bytes \<Rightarrow>
          (let result = Transform H bytes t
           in if TransformResult.Errors result \<noteq> [] then (Exit 1, [])
              else (Exit 0, [StdoutWrite (Code result)])))"

text \<open>
  \<^verbatim>\<open>runImpl\<close> (lines 1183 to 1410), called with no plugins of the caller's. A nil
  dereference in the parser is a panic of the process.
\<close>

definition runImpl ::
  "('l, 'e) externals \<Rightarrow> ('l, 'e) host \<Rightarrow> string list \<Rightarrow> outcome \<times> effect list" where
  "runImpl X H args =
     (if list_ex isServeArg args then (ServeImpl args, [])
      else (case filterAnalyzeFlags args of
              (osArgs, analyze) \<Rightarrow>
                (case parseOptionsForRun X osArgs of
                   (buildOptions, transformOptions, ex, failed) \<Rightarrow>
                     if failed = Some NilDereference
                     then (Panicked ''nil pointer dereference'', [])
                     else
                       (let err = (case failed of Some (Error e) \<Rightarrow> Some e | _ \<Rightarrow> None)
                        in case buildOptions of
                             Some b \<Rightarrow> runBuild X H osArgs analyze b ex err
                           | None \<Rightarrow>
                               (case transformOptions of
                                  Some t \<Rightarrow> runTransform H osArgs t
                                | None \<Rightarrow>
                                    (case err of
                                       Some e \<Rightarrow>
                                         (Exit 1,
                                          [PrintErrorWithNoteToStderr osArgs (Text e) (Note e)])
                                     | None \<Rightarrow> (Exit 0, [])))))))"

section \<open>Tree shaking (specification, section 4.3)\<close>

text \<open>
  Modelled from the spec: the linker is not among the sources of the command-line
  package, so the data model of section 3 and the mark-and-sweep of section 4.3 are
  written from the specification's words. A symbol is a number. A part has the symbols
  it declares, the symbols it references, its can-be-removed-if-unused flag (false for a
  statement with side effects) and the parts of its own unit it depends on, by their
  position in the unit.
\<close>

record Part =
  declares :: "nat list"
  references :: "nat list"
  canBeRemovedIfUnused :: bool
  dependsOn :: "nat list"

text \<open>
  Modelled from the spec: a source unit owns an ordered sequence of parts; it may be an
  entry point, and side-effect-free mode may be asserted for it.
\<close>

record SourceUnit =
  parts :: "Part list"
  entryPoint :: bool
  sideEffectFree :: bool

text \<open>
  Modelled from the spec: the units of a build, and a part's handle: the position of
  its unit and its position in the unit.
\<close>

type_synonym graph = "SourceUnit list"
type_synonym handle = "nat \<times> nat"

definition allParts :: "graph \<Rightarrow> handle list" where
  "allParts g = concat (map (\<lambda>u. map (\<lambda>i. (u, i)) [0..<length (parts (g ! u))]) [0..<length g])"

definition partAt :: "graph \<Rightarrow> handle \<Rightarrow> Part" where
  "partAt g h = parts (g ! fst h) ! snd h"

text \<open>Modelled from the spec: the parts that declare a symbol.\<close>

definition declaring :: "graph \<Rightarrow> nat \<Rightarrow> handle list" where
  "declaring g symbol = filter (\<lambda>h. symbol \<in> set (declares (partAt g h))) (allParts g)"

text \<open>
  Modelled from the spec: what marking a part also marks, rules (a) and (b) of the
  propagation: every part it references for symbol resolution, and every part of the
  same unit it depends on.
\<close>

definition refsOf :: "graph \<Rightarrow> handle \<Rightarrow> handle list" where
  "refsOf g h =
     (if h \<in> set (allParts g)
      then concat (map (declaring g) (references (partAt g h))) @
           map (\<lambda>j. (fst h, j))
             (filter (\<lambda>j. j < length (parts (g ! fst h))) (dependsOn (partAt g h)))
      else [])"

text \<open>
  Modelled from the spec: the seeds. The parts of every entry point that are not
  can-be-removed-if-unused, and by rule (c) every part with a side effect, unless its
  unit asserts side-effect-free mode. (The parts that declare a symbol a retained part
  imports are reached by rule (a).)
\<close>

definition seeds :: "graph \<Rightarrow> handle list" where
  "seeds g =
     filter (\<lambda>h. entryPoint (g ! fst h) \<and> \<not> canBeRemovedIfUnused (partAt g h)) (allParts g) @
     filter (\<lambda>h. \<not> canBeRemovedIfUnused (partAt g h) \<and> \<not> sideEffectFree (g ! fst h)) (allParts g)"

text \<open>
  Modelled from the spec: propagation to the fixed point, with a work list. A handle
  that is marked already, or that is no part of the graph, is dropped; a new one is
  marked and what it refers to joins the work list.
\<close>

function markLoop :: "graph \<Rightarrow> handle list \<Rightarrow> handle list \<Rightarrow> handle list" where
  "markLoop g [] marked = marked"
| "markLoop g (h # work) marked =
     (if h \<in> set marked \<or> h \<notin> set (allParts g) then markLoop g work marked
      else markLoop g (refsOf g h @ work) (h # marked))"
  by pat_completeness auto
termination
proof (relation "(\<lambda>(g, work, marked). card (set (allParts g) - set marked)) <*mlex*>
                 measure (\<lambda>(g, work, marked). length work)")
  show "wf ((\<lambda>(g, work, marked). card (set (allParts g) - set marked)) <*mlex*>
            measure (\<lambda>(g, work, marked). length work))"
    by (simp add: wf_mlex)
next
  fix g :: graph and h :: handle and work marked :: "handle list"
  assume "h \<in> set marked \<or> h \<notin> set (allParts g)"
  then show "((g, work, marked), (g, h # work, marked))
        \<in> (\<lambda>(g, work, marked). card (set (allParts g) - set marked)) <*mlex*>
           measure (\<lambda>(g, work, marked). length work)"
    by (simp add: mlex_prod_def)
next
  fix g :: graph and h :: handle and work marked :: "handle list"
  assume a: "\<not> (h \<in> set marked \<or> h \<notin> set (allParts g))"
  have "set (allParts g) - set (h # marked) \<subset> set (allParts g) - set marked"
    using a by auto
  then have "card (set (allParts g) - set (h # marked)) < card (set (allParts g) - set marked)"
    by (intro psubset_card_mono) auto
  then show "((g, refsOf g h @ work, h # marked), (g, h # work, marked))
        \<in> (\<lambda>(g, work, marked). card (set (allParts g) - set marked)) <*mlex*>
           measure (\<lambda>(g, work, marked). length work)"
    by (simp add: mlex_prod_def)
qed

text \<open>
  Modelled from the spec: the retained parts are the marked ones; the unmarked parts of
  the graph are marked for removal. One part is referenced by another when marking the
  second marks the first.
\<close>

definition retained :: "graph \<Rightarrow> handle set" where
  "retained g = set (markLoop g (seeds g) [])"

definition removed :: "graph \<Rightarrow> handle set" where
  "removed g = set (allParts g) - retained g"

definition refersTo :: "graph \<Rightarrow> handle \<Rightarrow> handle \<Rightarrow> bool" where
  "refersTo g a b = (b \<in> set (refsOf g a))"

section \<open>Notions the properties are stated with\<close>

text \<open>Two parse states are in the same mode when the same pointers are nil.\<close>

definition sameMode :: "('l, 'e) parseState \<Rightarrow> ('l, 'e) parseState \<Rightarrow> bool" where
  "sameMode s s' =
     ((buildOpts s' = None \<longleftrightarrow> buildOpts s = None) \<and>
      (transformOpts s' = None \<longleftrightarrow> transformOpts s = None))"

text \<open>
  The entry points a command line names, in its order: the arguments that do not start
  with a dash, without and with an equals sign; the text before the first equals sign
  is the output path, the text after it the input path.
\<close>

definition plainEntryPoints :: "string list \<Rightarrow> string list" where
  "plainEntryPoints osArgs =
     filter (\<lambda>arg. \<not> HasPrefix arg ''-'' \<and> CHR ''='' \<notin> set arg) osArgs"

definition advancedEntryPoints :: "string list \<Rightarrow> EntryPoint list" where
  "advancedEntryPoints osArgs =
     map (\<lambda>arg. \<lparr>InputPath = tl (dropWhile (\<lambda>c. c \<noteq> CHR ''='') arg),
                 OutputPath = takeWhile (\<lambda>c. c \<noteq> CHR ''='') arg\<rparr>)
       (filter (\<lambda>arg. \<not> HasPrefix arg ''-'' \<and> CHR ''='' \<in> set arg) osArgs)"

text \<open>
  A source-map flag is \<^verbatim>\<open>--sourcemap\<close> or \<^verbatim>\<open>--sourcemap=...\<close>; the last one of a
  command line is bare when it is the former.
\<close>

definition isSourceMapFlag :: "string \<Rightarrow> bool" where
  "isSourceMapFlag arg = (arg = ''--sourcemap'' \<or> HasPrefix arg ''--sourcemap='')"

definition lastSourceMapFlagIsBare :: "string list \<Rightarrow> bool" where
  "lastSourceMapFlagIsBare osArgs =
     (case rev (filter isSourceMapFlag osArgs) of
        [] \<Rightarrow> False
      | arg # earlier \<Rightarrow> arg = ''--sourcemap'')"

text \<open>
  A table of engines is well formed when no two entries have the same key and no key
  is a prefix of another key.
\<close>

definition prefixFree :: "string list \<Rightarrow> bool" where
  "prefixFree keys = list_all (\<lambda>k. list_all (\<lambda>k'. HasPrefix k k' \<longrightarrow> k = k') keys) keys"

text \<open>
  The decimal reading of a port text: an optional sign and one or more digits, read
  in base ten.
\<close>

definition decimalInteger :: "string \<Rightarrow> int option" where
  "decimalInteger text =
     (let digits = (case text of
                      c # cs \<Rightarrow> if c = CHR ''+'' \<or> c = CHR ''-'' then cs else text
                    | [] \<Rightarrow> [])
      in if digits = [] \<or> (\<exists>c \<in> set digits. \<not> isDigit c) then None
         else Some ((if HasPrefix text ''-'' then - 1 else 1) * int (decimal digits)))"

text \<open>
  Externals for running the parser on a command line: quoting that wraps the text in
  double quotes, lowering of the ASCII letters, four loaders named by their text, and a
  table of four engines.
\<close>

definition sampleExternals :: "(string, string) externals" where
  "sampleExternals =
     \<lparr>Quote = (\<lambda>text. [CHR 0x22] @ text @ [CHR 0x22]),
      ToLower = map (\<lambda>c. if CHR ''A'' \<le> c \<and> c \<le> CHR ''Z''
                          then char_of (of_char c + (32 :: nat)) else c),
      ParseLoader = (\<lambda>text. if text \<in> set [''js'', ''css'', ''file'', ''copy''] then Inr text
                            else Inl (MakeErrorWithNote (''Invalid loader value: '' @ text) [])),
      LoaderNone = [], LoaderFile = ''file'', LoaderCopy = ''copy'',
      validEngines = [(''chrome'', ''chrome''), (''ie'', ''ie''), (''ios'', ''ios''),
                      (''node'', ''node'')]\<rparr>"

text \<open>
  A graph of two units: the entry point has a statement with a side effect that uses a
  declaration, which uses a declaration of the second unit, and an unused declaration;
  the second unit is side-effect free and has a statement with a side effect.
\<close>

definition sampleGraph :: graph where
  "sampleGraph =
     [\<lparr>parts = [\<lparr>declares = [], references = [1], canBeRemovedIfUnused = False, dependsOn = []\<rparr>,
                \<lparr>declares = [1], references = [2], canBeRemovedIfUnused = True, dependsOn = []\<rparr>,
                \<lparr>declares = [3], references = [], canBeRemovedIfUnused = True, dependsOn = [1]\<rparr>],
       entryPoint = True, sideEffectFree = False\<rparr>,
      \<lparr>parts = [\<lparr>declares = [2], references = [], canBeRemovedIfUnused = True, dependsOn = []\<rparr>,
                \<lparr>declares = [4], references = [], canBeRemovedIfUnused = False, dependsOn = []\<rparr>],
       entryPoint = False, sideEffectFree = True\<rparr>]"

text \<open>
  The state after an assignment to one option, as the cases make it: in the build
  options when that pointer is not nil, in the transform options otherwise.
\<close>

definition withFormat :: "Format \<Rightarrow> ('l, 'e) parseState \<Rightarrow> ('l, 'e) parseState" where
  "withFormat format s =
     (case buildOpts s of
        Some b \<Rightarrow> s\<lparr>buildOpts := Some (b\<lparr>BuildOptions.Format := format\<rparr>)\<rparr>
      | None \<Rightarrow>
          s\<lparr>transformOpts :=
               map_option (\<lambda>t. t\<lparr>TransformOptions.Format := format\<rparr>) (transformOpts s)\<rparr>)"

definition withTreeShaking :: "TreeShaking \<Rightarrow> ('l, 'e) parseState \<Rightarrow> ('l, 'e) parseState" where
  "withTreeShaking v s =
     (case buildOpts s of
        Some b \<Rightarrow> s\<lparr>buildOpts := Some (b\<lparr>BuildOptions.TreeShaking := v\<rparr>)\<rparr>
      | None \<Rightarrow>
          s\<lparr>transformOpts :=
               map_option (\<lambda>t. t\<lparr>TransformOptions.TreeShaking := v\<rparr>) (transformOpts s)\<rparr>)"

text \<open>The splitting option exists in the build options only.\<close>

definition withSplitting :: "bool \<Rightarrow> ('l, 'e) parseState \<Rightarrow> ('l, 'e) parseState" where
  "withSplitting v s = s\<lparr>buildOpts := map_option (\<lambda>b. b\<lparr>Splitting := v\<rparr>) (buildOpts s)\<rparr>"

text \<open>
  The states in which \<^verbatim>\<open>parseOptionsImpl\<close> starts its loop when it is called in build
  mode and in transform mode.
\<close>

definition buildState :: "('l, 'e) BuildOptions \<Rightarrow> ('l, 'e) parseState" where
  "buildState b =
     \<lparr>buildOpts = Some b, transformOpts = None, extras = noExtras,
      hasBareSourceMapFlag = False\<rparr>"

definition transformState :: "('l, 'e) TransformOptions \<Rightarrow> ('l, 'e) parseState" where
  "transformState t =
     \<lparr>buildOpts = None, transformOpts = Some t, extras = noExtras,
      hasBareSourceMapFlag = False\<rparr>"

text \<open>
  A world for running the runner: no \<^verbatim>\<open>NODE_PATH\<close>, empty standard input, a file
  system on which every call succeeds and paths are absolute as they are, an empty
  mangle cache, and a build that fails with one error and no metafile.
\<close>

definition sampleHost :: "(string, string) host" where
  "sampleHost =
     \<lparr>LookupEnv_NODE_PATH = None, CheckIfWindows = False, ReadAll_Stdin = Inr [],
      Getwd = ''/work'', RealFS_err = (\<lambda>dir. None), Abs = (\<lambda>path. Some path),
      Dir = (\<lambda>path. ''/work''), MkdirAll_err = (\<lambda>dir. None),
      WriteFile_err = (\<lambda>path bytes. None),
      parseMangleCache = (\<lambda>osArgs path. ([], Some (Map.empty, []))),
      printMangleCache = (\<lambda>cache keys ascii. ''{}''),
      Context_err = (\<lambda>options. False), watchResults = (\<lambda>options. []),
      Build = (\<lambda>options. \<lparr>BuildResult.Errors = [''error''], Metafile = [], MangleCache = None\<rparr>),
      Transform = (\<lambda>input options. \<lparr>TransformResult.Errors = [], Code = input\<rparr>)\<rparr>"

section \<open>Properties\<close>

subsection \<open>The combinators of the cases\<close>

lemma onBuild_simps:
  "onBuild f s = Inr s' \<longleftrightarrow> (\<exists>b. buildOpts s = Some b \<and> s' = s\<lparr>buildOpts := Some (f b)\<rparr>)"
  "onBuild f s = Inl x \<longleftrightarrow> buildOpts s = None \<and> x = NilDereference"
  by (auto simp: onBuild_def split: option.splits)

lemma onTransform_simps:
  "onTransform f s = Inr s' \<longleftrightarrow> (\<exists>t. transformOpts s = Some t \<and> s' = s\<lparr>transformOpts := Some (f t)\<rparr>)"
  "onTransform f s = Inl x \<longleftrightarrow> transformOpts s = None \<and> x = NilDereference"
  by (auto simp: onTransform_def split: option.splits)

lemma onEither_simps:
  "onEither fb ft s = Inr s' \<longleftrightarrow>
     (\<exists>b. buildOpts s = Some b \<and> s' = s\<lparr>buildOpts := Some (fb b)\<rparr>) \<or>
     (buildOpts s = None \<and> (\<exists>t. transformOpts s = Some t \<and> s' = s\<lparr>transformOpts := Some (ft t)\<rparr>))"
  "onEither fb ft s = Inl x \<longleftrightarrow> buildOpts s = None \<and> transformOpts s = None \<and> x = NilDereference"
  by (auto simp: onEither_def onBuild_simps onTransform_simps)

lemma withBool_simps:
  "withBool X arg k = Inr s' \<longleftrightarrow> (\<exists>v. parseBoolFlag X arg True = Inr v \<and> k v = Inr s')"
  "withBool X arg k = Inl x \<longleftrightarrow>
     (\<exists>e. parseBoolFlag X arg True = Inl e \<and> x = Error e) \<or>
     (\<exists>v. parseBoolFlag X arg True = Inr v \<and> k v = Inl x)"
  by (auto simp: withBool_def split: sum.splits)

lemma if_SomeE:
  assumes "(if c then Some x else y) = Some r"
  obtains (taken) "c" "x = r" | (next_case) "y = Some r"
  using assms by (auto split: if_splits)

lemmas step_simps = onBuild_simps onEither_simps onTransform_simps withBool_simps Let_def

lemma A_mode:
  "cases_bundle_to_dropLabels X kind arg s = Some (Inr s') \<Longrightarrow> sameMode s s'"
  unfolding cases_bundle_to_dropLabels_def sameMode_def
  apply (elim if_SomeE)
  apply (auto simp: step_simps)
  apply (simp_all split: option.splits if_splits sum.splits add: step_simps)?
  apply (auto simp: step_simps)?
  done

lemma A_panic:
  "cases_bundle_to_dropLabels X kind arg s = Some (Inl NilDereference) \<Longrightarrow>
   buildOpts s = None \<and> transformOpts s = None"
  unfolding cases_bundle_to_dropLabels_def
  apply (elim if_SomeE)
  apply (auto simp: step_simps)
  apply (simp_all split: option.splits if_splits sum.splits add: step_simps)?
  apply (auto simp: step_simps)?
  done

lemma B_mode:
  "cases_legalComments_to_assetNames X kind arg s = Some (Inr s') \<Longrightarrow> sameMode s s'"
  unfolding cases_legalComments_to_assetNames_def sameMode_def
  apply (elim if_SomeE)
  apply (auto simp: step_simps)
  apply (simp_all split: option.splits if_splits sum.splits add: step_simps)?
  apply (auto simp: step_simps)?
  done

lemma B_panic:
  "cases_legalComments_to_assetNames X kind arg s = Some (Inl NilDereference) \<Longrightarrow>
   buildOpts s = None \<and> transformOpts s = None"
  unfolding cases_legalComments_to_assetNames_def
  apply (elim if_SomeE)
  apply (auto simp: step_simps)
  apply (simp_all split: option.splits if_splits sum.splits add: step_simps)?
  apply (auto simp: step_simps)?
  done

lemma C_mode:
  "cases_define_to_outExtension X kind arg s = Some (Inr s') \<Longrightarrow> sameMode s s'"
  unfolding cases_define_to_outExtension_def sameMode_def
  apply (elim if_SomeE)
  apply (auto simp: step_simps)
  apply (simp_all split: option.splits if_splits sum.splits add: step_simps)?
  apply (auto simp: step_simps)?
  done

lemma C_panic:
  "cases_define_to_outExtension X kind arg s = Some (Inl NilDereference) \<Longrightarrow>
   buildOpts s = None \<and> transformOpts s = None"
  unfolding cases_define_to_outExtension_def
  apply (elim if_SomeE)
  apply (auto simp: step_simps)
  apply (simp_all split: option.splits if_splits sum.splits add: step_simps)?
  apply (auto simp: step_simps)?
  done

lemma D_mode:
  "cases_platform_to_footer X kind arg s = Some (Inr s') \<Longrightarrow> sameMode s s'"
  unfolding cases_platform_to_footer_def sameMode_def
  apply (elim if_SomeE)
  apply (auto simp: step_simps)
  apply (simp_all split: option.splits if_splits sum.splits add: step_simps)?
  apply (auto simp: step_simps)?
  done

lemma D_panic:
  "cases_platform_to_footer X kind arg s = Some (Inl NilDereference) \<Longrightarrow>
   buildOpts s = None \<and> transformOpts s = None"
  unfolding cases_platform_to_footer_def
  apply (elim if_SomeE)
  apply (auto simp: step_simps)
  apply (simp_all split: option.splits if_splits sum.splits add: step_simps)?
  apply (auto simp: step_simps)?
  done

lemma E_mode:
  "cases_logLimit_to_entryPoint X kind arg s = Some (Inr s') \<Longrightarrow> sameMode s s'"
  unfolding cases_logLimit_to_entryPoint_def sameMode_def
  apply (elim if_SomeE)
  apply (auto simp: step_simps)
  apply (simp_all split: option.splits if_splits sum.splits add: step_simps)?
  apply (auto simp: step_simps)?
  done

lemma E_panic:
  "cases_logLimit_to_entryPoint X kind arg s = Some (Inl NilDereference) \<Longrightarrow>
   buildOpts s = None \<and> transformOpts s = None"
  unfolding cases_logLimit_to_entryPoint_def
  apply (elim if_SomeE)
  apply (auto simp: step_simps)
  apply (simp_all split: option.splits if_splits sum.splits add: step_simps)?
  apply (auto simp: step_simps)?
  done

lemma A_frame:
  "cases_bundle_to_dropLabels X kind arg s = Some (Inr s') \<Longrightarrow> buildOpts s = Some b \<Longrightarrow>
   \<exists>b'. buildOpts s' = Some b' \<and>
     (HasPrefix arg ''-'' \<longrightarrow> EntryPoints b' = EntryPoints b \<and>
        EntryPointsAdvanced b' = EntryPointsAdvanced b) \<and>
     (\<not> isSourceMapFlag arg \<longrightarrow> BuildOptions.Sourcemap b' = BuildOptions.Sourcemap b \<and>
        hasBareSourceMapFlag s' = hasBareSourceMapFlag s)"
  unfolding cases_bundle_to_dropLabels_def isSourceMapFlag_def
  apply (elim if_SomeE)
  apply (auto simp: step_simps)
  apply (simp_all split: option.splits if_splits sum.splits add: step_simps)?
  apply (auto simp: step_simps)?
  done

lemma B_frame:
  "cases_legalComments_to_assetNames X kind arg s = Some (Inr s') \<Longrightarrow> buildOpts s = Some b \<Longrightarrow>
   \<exists>b'. buildOpts s' = Some b' \<and>
     (HasPrefix arg ''-'' \<longrightarrow> EntryPoints b' = EntryPoints b \<and>
        EntryPointsAdvanced b' = EntryPointsAdvanced b) \<and>
     (\<not> isSourceMapFlag arg \<longrightarrow> BuildOptions.Sourcemap b' = BuildOptions.Sourcemap b \<and>
        hasBareSourceMapFlag s' = hasBareSourceMapFlag s)"
  unfolding cases_legalComments_to_assetNames_def isSourceMapFlag_def
  apply (elim if_SomeE)
  apply (auto simp: step_simps)
  apply (simp_all split: option.splits if_splits sum.splits add: step_simps)?
  apply (auto simp: step_simps)?
  done

lemma C_frame:
  "cases_define_to_outExtension X kind arg s = Some (Inr s') \<Longrightarrow> buildOpts s = Some b \<Longrightarrow>
   \<exists>b'. buildOpts s' = Some b' \<and>
     (HasPrefix arg ''-'' \<longrightarrow> EntryPoints b' = EntryPoints b \<and>
        EntryPointsAdvanced b' = EntryPointsAdvanced b) \<and>
     (\<not> isSourceMapFlag arg \<longrightarrow> BuildOptions.Sourcemap b' = BuildOptions.Sourcemap b \<and>
        hasBareSourceMapFlag s' = hasBareSourceMapFlag s)"
  unfolding cases_define_to_outExtension_def isSourceMapFlag_def
  apply (elim if_SomeE)
  apply (auto simp: step_simps)
  apply (simp_all split: option.splits if_splits sum.splits add: step_simps)?
  apply (auto simp: step_simps)?
  done

lemma D_frame:
  "cases_platform_to_footer X kind arg s = Some (Inr s') \<Longrightarrow> buildOpts s = Some b \<Longrightarrow>
   \<exists>b'. buildOpts s' = Some b' \<and>
     (HasPrefix arg ''-'' \<longrightarrow> EntryPoints b' = EntryPoints b \<and>
        EntryPointsAdvanced b' = EntryPointsAdvanced b) \<and>
     (\<not> isSourceMapFlag arg \<longrightarrow> BuildOptions.Sourcemap b' = BuildOptions.Sourcemap b \<and>
        hasBareSourceMapFlag s' = hasBareSourceMapFlag s)"
  unfolding cases_platform_to_footer_def isSourceMapFlag_def
  apply (elim if_SomeE)
  apply (auto simp: step_simps)
  apply (simp_all split: option.splits if_splits sum.splits add: step_simps)?
  apply (auto simp: step_simps)?
  done

lemma E_frame:
  "cases_logLimit_to_entryPoint X kind arg s = Some (Inr s') \<Longrightarrow> buildOpts s = Some b \<Longrightarrow>
   \<exists>b'. buildOpts s' = Some b' \<and>
     (HasPrefix arg ''-'' \<longrightarrow> EntryPoints b' = EntryPoints b \<and>
        EntryPointsAdvanced b' = EntryPointsAdvanced b) \<and>
     (\<not> isSourceMapFlag arg \<longrightarrow> BuildOptions.Sourcemap b' = BuildOptions.Sourcemap b \<and>
        hasBareSourceMapFlag s' = hasBareSourceMapFlag s)"
  unfolding cases_logLimit_to_entryPoint_def isSourceMapFlag_def
  apply (elim if_SomeE)
  apply (auto simp: step_simps)
  apply (simp_all split: option.splits if_splits sum.splits add: step_simps)?
  apply (auto simp: step_simps)?
  done

lemma parseArg_mode: "parseArg X kind arg s = Inr s' \<Longrightarrow> sameMode s s'"
  unfolding parseArg_def
  by (auto split: option.splits dest: A_mode B_mode C_mode D_mode E_mode)

lemma parseArg_panic:
  "parseArg X kind arg s = Inl NilDereference \<Longrightarrow> buildOpts s = None \<and> transformOpts s = None"
  unfolding parseArg_def
  by (auto split: option.splits dest: A_panic B_panic C_panic D_panic E_panic)


lemma parseArg_frame:
  assumes "parseArg X kind arg s = Inr s'" "buildOpts s = Some b"
  shows "\<exists>b'. buildOpts s' = Some b' \<and>
     (HasPrefix arg ''-'' \<longrightarrow> EntryPoints b' = EntryPoints b \<and>
        EntryPointsAdvanced b' = EntryPointsAdvanced b) \<and>
     (\<not> isSourceMapFlag arg \<longrightarrow> BuildOptions.Sourcemap b' = BuildOptions.Sourcemap b \<and>
        hasBareSourceMapFlag s' = hasBareSourceMapFlag s)"
proof -
  from assms(1) consider
      "cases_bundle_to_dropLabels X kind arg s = Some (Inr s')"
    | "cases_legalComments_to_assetNames X kind arg s = Some (Inr s')"
    | "cases_define_to_outExtension X kind arg s = Some (Inr s')"
    | "cases_platform_to_footer X kind arg s = Some (Inr s')"
    | "cases_logLimit_to_entryPoint X kind arg s = Some (Inr s')"
    unfolding parseArg_def by (simp split: option.splits)
  then show ?thesis
  proof cases
    case 1 then show ?thesis using assms(2) by (rule A_frame)
  next
    case 2 then show ?thesis using assms(2) by (rule B_frame)
  next
    case 3 then show ?thesis using assms(2) by (rule C_frame)
  next
    case 4 then show ?thesis using assms(2) by (rule D_frame)
  next
    case 5 then show ?thesis using assms(2) by (rule E_frame)
  qed
qed

lemma parseArgs_mode: "parseArgs X kind osArgs s = (s', r) \<Longrightarrow> sameMode s s'"
proof (induction osArgs arbitrary: s)
  case Nil
  then show ?case by (simp add: sameMode_def)
next
  case (Cons arg rest)
  show ?case
  proof (cases "parseArg X kind arg s")
    case (Inl f)
    then show ?thesis using Cons.prems by (simp add: sameMode_def)
  next
    case (Inr s1)
    then have "parseArgs X kind rest s1 = (s', r)" using Cons.prems by simp
    then have "sameMode s1 s'" by (rule Cons.IH)
    moreover have "sameMode s s1" using Inr by (rule parseArg_mode)
    ultimately show ?thesis by (simp add: sameMode_def)
  qed
qed

lemma parseArgs_panic:
  "parseArgs X kind osArgs s = (s', Some NilDereference) \<Longrightarrow>
   buildOpts s = None \<and> transformOpts s = None"
proof (induction osArgs arbitrary: s)
  case Nil
  then show ?case by simp
next
  case (Cons arg rest)
  show ?case
  proof (cases "parseArg X kind arg s")
    case (Inl f)
    then show ?thesis using Cons.prems parseArg_panic[of X kind arg s] by simp
  next
    case (Inr s1)
    then have "parseArgs X kind rest s1 = (s', Some NilDereference)" using Cons.prems by simp
    then have "buildOpts s1 = None \<and> transformOpts s1 = None" by (rule Cons.IH)
    moreover have "sameMode s s1" using Inr by (rule parseArg_mode)
    ultimately show ?thesis by (simp add: sameMode_def)
  qed
qed

lemma HasPrefix_append: "HasPrefix (p @ v) p"
  by (simp add: HasPrefix_def)

lemma HasPrefix_iff: "HasPrefix arg p \<longleftrightarrow> (\<exists>v. arg = p @ v)"
proof
  assume "HasPrefix arg p"
  then have "arg = p @ drop (length p) arg"
    unfolding HasPrefix_def by (metis append_take_drop_id)
  then show "\<exists>v. arg = p @ v" ..
next
  assume "\<exists>v. arg = p @ v"
  then show "HasPrefix arg p" by (auto simp: HasPrefix_def)
qed

lemma after_append: "after (p @ v) p = v"
  by (simp add: after_def)

lemmas seg_defs = cases_bundle_to_dropLabels_def cases_legalComments_to_assetNames_def
  cases_define_to_outExtension_def cases_platform_to_footer_def cases_logLimit_to_entryPoint_def

subsection \<open>The mark set is closed\<close>

lemma allParts_iff: "(u, i) \<in> set (allParts g) \<longleftrightarrow> u < length g \<and> i < length (parts (g ! u))"
  by (force simp: allParts_def)

lemma markLoop_mono: "set marked \<subseteq> set (markLoop g work marked)"
  by (induction g work marked rule: markLoop.induct) auto

lemma refsOf_valid: "b \<in> set (refsOf g a) \<Longrightarrow> b \<in> set (allParts g)"
proof (cases a)
  case (Pair u i)
  assume b: "b \<in> set (refsOf g a)"
  then have a: "a \<in> set (allParts g)" by (auto simp: refsOf_def split: if_splits)
  then have u: "u < length g" using Pair by (simp add: allParts_iff)
  from b a consider "b \<in> set (concat (map (declaring g) (references (partAt g a))))"
    | j where "b = (u, j)" "j < length (parts (g ! u))"
    using Pair by (auto simp: refsOf_def)
  then show ?thesis
  proof cases
    case 1 then show ?thesis by (auto simp: declaring_def)
  next
    case 2 then show ?thesis using u by (simp add: allParts_iff)
  qed
qed

lemma markLoop_closed:
  "\<forall>a \<in> set marked. set (refsOf g a) \<subseteq> set marked \<union> set work \<Longrightarrow>
   a \<in> set (markLoop g work marked) \<Longrightarrow> b \<in> set (refsOf g a) \<Longrightarrow>
   b \<in> set (markLoop g work marked)"
proof (induction g work marked rule: markLoop.induct)
  case (1 g marked)
  then show ?case by auto
next
  case (2 g x work marked)
  show ?case
  proof (cases "x \<in> set marked \<or> x \<notin> set (allParts g)")
    case True
    have inv: "\<forall>a \<in> set marked. set (refsOf g a) \<subseteq> set marked \<union> set work"
    proof (intro ballI subsetI)
      fix a c assume a: "a \<in> set marked" and c: "c \<in> set (refsOf g a)"
      then have "c \<in> set marked \<union> set (x # work)" using 2(3) by blast
      moreover have "c \<in> set (allParts g)" using c by (rule refsOf_valid)
      ultimately show "c \<in> set marked \<union> set work" using True by auto
    qed
    show ?thesis using 2(1)[OF True inv] 2(4,5) True by simp
  next
    case False
    have inv: "\<forall>a \<in> set (x # marked). set (refsOf g a) \<subseteq> set (x # marked) \<union> set (refsOf g x @ work)"
      using 2(3) by auto
    show ?thesis using 2(2)[OF False inv] 2(4,5) False by simp
  qed
qed

lemma retained_step: "a \<in> retained g \<Longrightarrow> refersTo g a b \<Longrightarrow> b \<in> retained g"
  unfolding retained_def refersTo_def
  using markLoop_closed[of "[]" g "seeds g" a b] by simp

text \<open>
  C7. Reachability soundness: a part that a retained part refers to, directly or through
  any chain of references, is retained and not marked for removal.
\<close>

theorem reachability_soundness:
  "a \<in> retained g \<Longrightarrow> (refersTo g)\<^sup>*\<^sup>* a b \<Longrightarrow> b \<in> retained g \<and> b \<notin> removed g"
proof -
  assume r: "(refersTo g)\<^sup>*\<^sup>* a b" and a: "a \<in> retained g"
  from r a have "b \<in> retained g"
  proof (induction rule: rtranclp_induct)
    case base then show ?case .
  next
    case (step y z)
    then show ?case using retained_step by blast
  qed
  then show ?thesis by (simp add: removed_def)
qed

lemma sampleGraph_allParts:
  "allParts sampleGraph = [(0, 0), (0, Suc 0), (0, 2), (Suc 0, 0), (Suc 0, Suc 0)]"
  by (simp add: allParts_def sampleGraph_def)

lemma sampleGraph_seeds: "seeds sampleGraph = [(0, 0), (0, 0)]"
  by (simp add: seeds_def allParts_def partAt_def sampleGraph_def)

lemma sampleGraph_refs:
  "refsOf sampleGraph (0, 0) = [(0, Suc 0)]"
  "refsOf sampleGraph (0, Suc 0) = [(Suc 0, 0)]"
  "refsOf sampleGraph (Suc 0, 0) = []"
  by (simp_all add: refsOf_def declaring_def allParts_def partAt_def sampleGraph_def)

lemma sampleGraph_retained:
  "markLoop sampleGraph (seeds sampleGraph) [] = [(Suc 0, 0), (0, Suc 0), (0, 0)]"
  by (simp add: sampleGraph_seeds sampleGraph_refs sampleGraph_allParts)

theorem reachability_soundness_witness:
  "(0, 0) \<in> retained sampleGraph \<and> (refersTo sampleGraph)\<^sup>*\<^sup>* (0, 0) (1, 0) \<and>
   (1, 0) \<in> retained sampleGraph \<and> (1, 0) \<notin> removed sampleGraph \<and>
   removed sampleGraph = {(0, 2), (1, 1)}"
proof -
  have a: "(0, 0) \<in> retained sampleGraph"
    by (simp add: retained_def sampleGraph_retained)
  have "refersTo sampleGraph (0, 0) (0, 1)" by (simp add: refersTo_def sampleGraph_refs)
  moreover have "refersTo sampleGraph (0, 1) (1, 0)" by (simp add: refersTo_def sampleGraph_refs)
  ultimately have r: "(refersTo sampleGraph)\<^sup>*\<^sup>* (0, 0) (1, 0)" by auto
  have "removed sampleGraph = {(0, 2), (1, 1)}"
    by (auto simp: removed_def retained_def sampleGraph_retained sampleGraph_allParts)
  then show ?thesis using a r reachability_soundness[OF a r] by simp
qed

text \<open>
  C5. Called with the empty metafile text of a failed build, the metafile writer returns
  the trace it was given: it creates no directory, writes no file and prints nothing,
  whatever it captured.
\<close>

theorem writeMetafile_empty_json:
  "writeMetafile H osArgs err wr [] tr = Inr tr"
  by (simp add: writeMetafile_def)

subsection \<open>A command line with an argument that fails\<close>

lemma parseArgs_fails:
  assumes "arg \<in> set osArgs"
    and "\<And>s :: ('l, 'e) parseState. buildOpts s \<noteq> None \<or> transformOpts s \<noteq> None \<Longrightarrow>
           \<exists>f. parseArg X kind arg s = Inl f"
    and "buildOpts s \<noteq> None \<or> transformOpts s \<noteq> None"
  shows "\<exists>s' e. parseArgs X kind osArgs s = (s', Some (Error e))"
  using assms(1,3)
proof (induction osArgs arbitrary: s)
  case Nil
  then show ?case by simp
next
  case (Cons a rest)
  show ?case
  proof (cases "parseArg X kind a s")
    case (Inl f)
    have "f \<noteq> NilDereference" using Inl parseArg_panic[of X kind a s] Cons.prems(2) by auto
    then obtain e where "f = Error e" by (cases f) auto
    then show ?thesis using Inl by simp
  next
    case (Inr s1)
    then have "a \<noteq> arg" using assms(2)[OF Cons.prems(2)] by auto
    then have "arg \<in> set rest" using Cons.prems(1) by simp
    moreover have "buildOpts s1 \<noteq> None \<or> transformOpts s1 \<noteq> None"
      using parseArg_mode[OF Inr] Cons.prems(2) by (simp add: sameMode_def)
    ultimately show ?thesis using Cons.IH Inr by simp
  qed
qed

lemma parseOptionsImpl_fails:
  assumes "arg \<in> set osArgs"
    and "\<And>s :: ('l, 'e) parseState. buildOpts s \<noteq> None \<or> transformOpts s \<noteq> None \<Longrightarrow>
           \<exists>f. parseArg X kind arg s = Inl f"
    and "bo \<noteq> None \<or> to \<noteq> None"
  shows "\<exists>b' t' e. parseOptionsImpl X osArgs bo to kind = (b', t', noExtras, Some (Error e))"
proof -
  obtain s' e where "parseArgs X kind osArgs
      \<lparr>buildOpts = bo, transformOpts = to, extras = noExtras, hasBareSourceMapFlag = False\<rparr>
      = (s', Some (Error e))"
    using parseArgs_fails[OF assms(1,2), of "\<lparr>buildOpts = bo, transformOpts = to,
      extras = noExtras, hasBareSourceMapFlag = False\<rparr>"] assms(3) by auto
  then show ?thesis by (simp add: parseOptionsImpl_def)
qed

lemma parseOptionsForRun_scan_eq:
  "parseOptionsForRun_scan X osArgs rest =
     (if \<exists>arg \<in> set rest. isArgForBuild arg then runAsBuild X osArgs else runAsTransform X osArgs)"
  by (induction rest) auto

lemma parseOptionsForRun_eq:
  "parseOptionsForRun X osArgs =
     (if \<exists>arg \<in> set osArgs. isArgForBuild arg then runAsBuild X osArgs else runAsTransform X osArgs)"
  by (simp add: parseOptionsForRun_def parseOptionsForRun_scan_eq)

lemma parseOptionsForRun_fails:
  assumes "arg \<in> set osArgs"
    and "\<And>s :: ('l, 'e) parseState. buildOpts s \<noteq> None \<or> transformOpts s \<noteq> None \<Longrightarrow>
           \<exists>f. parseArg X kindInternal arg s = Inl f"
  shows "\<exists>e. parseOptionsForRun X osArgs = (None, None, noExtras, Some (Error e))"
proof (cases "\<exists>arg \<in> set osArgs. isArgForBuild arg")
  case True
  obtain b' t' e where "parseOptionsImpl X osArgs
      (Some (newBuildOptions\<lparr>BuildOptions.LogLimit := 6, BuildOptions.LogLevel := LogLevelInfo,
         Write := True\<rparr>)) None kindInternal = (b', t', noExtras, Some (Error e))"
    using parseOptionsImpl_fails[OF assms] by blast
  then show ?thesis using True by (simp add: parseOptionsForRun_eq runAsBuild_def Let_def)
next
  case False
  obtain b' t' e where "parseOptionsImpl X osArgs None
      (Some ((newTransformOptions X)\<lparr>TransformOptions.LogLimit := 6,
         TransformOptions.LogLevel := LogLevelInfo\<rparr>)) kindInternal
      = (b', t', noExtras, Some (Error e))"
    using parseOptionsImpl_fails[OF assms] by blast
  then show ?thesis using False by (simp add: parseOptionsForRun_eq runAsTransform_def Let_def)
qed

subsection \<open>The format flag\<close>

lemma parseArg_format:
  "parseArg X kind (''--format='' @ v) s =
     (case formatOf v of
        None \<Rightarrow> Inl (Error (invalidValue X v (''--format='' @ v)
                  ''Valid values are \"iife\", \"cjs\", or \"esm\".''))
      | Some format \<Rightarrow>
          onEither (\<lambda>b. b\<lparr>BuildOptions.Format := format\<rparr>)
                   (\<lambda>t. t\<lparr>TransformOptions.Format := format\<rparr>) s)"
  by (simp add: parseArg_def seg_defs isBoolFlag_def HasPrefix_def after_def split: option.splits)

lemma onEither_withFormat:
  "buildOpts s \<noteq> None \<or> transformOpts s \<noteq> None \<Longrightarrow>
   onEither (\<lambda>b. b\<lparr>BuildOptions.Format := format\<rparr>)
            (\<lambda>t. t\<lparr>TransformOptions.Format := format\<rparr>) s = Inr (withFormat format s)"
  by (auto simp: onEither_def onBuild_def onTransform_def withFormat_def split: option.splits)

text \<open>
  C2. With one of the two option structs present, an argument \<open>--format=v\<close> is accepted
  exactly for \<open>iife\<close>, \<open>cjs\<close> and \<open>esm\<close>, and sets the format to the constant of that
  name; any other \<open>v\<close> is the error \<open>Invalid value\<close>. A command line that holds such an
  argument makes \<^verbatim>\<open>parseOptionsImpl\<close> return an error with empty extras, and
  \<^verbatim>\<open>parseOptionsForRun\<close> return the error and neither option struct.
\<close>

theorem format_flag:
  assumes "buildOpts s \<noteq> None \<or> transformOpts s \<noteq> None"
  shows "parseArg X kind (''--format='' @ v) s =
           (if v = ''iife'' then Inr (withFormat FormatIIFE s)
            else if v = ''cjs'' then Inr (withFormat FormatCommonJS s)
            else if v = ''esm'' then Inr (withFormat FormatESModule s)
            else Inl (Error (invalidValue X v (''--format='' @ v)
                   ''Valid values are \"iife\", \"cjs\", or \"esm\".''))) \<and>
         ((\<exists>s'. parseArg X kind (''--format='' @ v) s = Inr s') \<longleftrightarrow>
            v \<in> {''iife'', ''cjs'', ''esm''}) \<and>
         (v \<notin> {''iife'', ''cjs'', ''esm''} \<and> ''--format='' @ v \<in> set osArgs \<and>
            (bo \<noteq> None \<or> to \<noteq> None) \<longrightarrow>
            (\<exists>b' t' e. parseOptionsImpl X osArgs bo to kind = (b', t', noExtras, Some (Error e))) \<and>
            (\<exists>e. parseOptionsForRun X osArgs = (None, None, noExtras, Some (Error e))))"
proof -
  have step: "parseArg X kind (''--format='' @ v) s =
           (if v = ''iife'' then Inr (withFormat FormatIIFE s)
            else if v = ''cjs'' then Inr (withFormat FormatCommonJS s)
            else if v = ''esm'' then Inr (withFormat FormatESModule s)
            else Inl (Error (invalidValue X v (''--format='' @ v)
                   ''Valid values are \"iife\", \"cjs\", or \"esm\".'')))"
    unfolding parseArg_format using assms by (simp add: formatOf_def onEither_withFormat)
  have iff: "(\<exists>s'. parseArg X kind (''--format='' @ v) s = Inr s') \<longleftrightarrow>
            v \<in> {''iife'', ''cjs'', ''esm''}"
    unfolding step by auto
  have bad: "\<exists>f. parseArg X k (''--format='' @ v) s1 = Inl f"
    if "v \<notin> {''iife'', ''cjs'', ''esm''}" for k and s1 :: "('a, 'b) parseState"
    unfolding parseArg_format using that by (simp add: formatOf_def)
  have whole: "(\<exists>b' t' e. parseOptionsImpl X osArgs bo to kind = (b', t', noExtras, Some (Error e))) \<and>
            (\<exists>e. parseOptionsForRun X osArgs = (None, None, noExtras, Some (Error e)))"
    if "v \<notin> {''iife'', ''cjs'', ''esm''}" "''--format='' @ v \<in> set osArgs" "bo \<noteq> None \<or> to \<noteq> None"
    using parseOptionsImpl_fails[OF that(2) bad[OF that(1)] that(3)]
          parseOptionsForRun_fails[OF that(2) bad[OF that(1)]] by blast
  show ?thesis using step iff whole by blast
qed

theorem format_flag_witness:
  "parseArg sampleExternals kindInternal ''--format=esm'' (buildState newBuildOptions) =
     Inr (withFormat FormatESModule (buildState newBuildOptions)) \<and>
   (\<exists>s'. parseArg sampleExternals kindInternal ''--format=esm'' (buildState newBuildOptions) = Inr s') \<and>
   (\<exists>e. parseOptionsForRun sampleExternals [''app.js'', ''--format=amd''] =
      (None, None, noExtras, Some (Error e)))"
proof -
  have m: "buildOpts (buildState newBuildOptions :: (string, string) parseState) \<noteq> None \<or>
           transformOpts (buildState newBuildOptions :: (string, string) parseState) \<noteq> None"
    by (simp add: buildState_def)
  show ?thesis
    using format_flag[OF m, of sampleExternals kindInternal "''esm''" "[]" None None]
          format_flag[OF m, of sampleExternals kindInternal "''amd''" "[''app.js'', ''--format=amd'']"
            "Some newBuildOptions" None]
    by simp
qed

subsection \<open>The boolean flags\<close>

lemma parseBoolFlag_bare: "CHR ''='' \<notin> set arg \<Longrightarrow> parseBoolFlag X arg d = Inr d"
proof -
  have "IndexByte arg c = None" if "c \<notin> set arg" for c
    using that by (induction arg) auto
  then show "CHR ''='' \<notin> set arg \<Longrightarrow> parseBoolFlag X arg d = Inr d"
    by (simp add: parseBoolFlag_def)
qed

lemma IndexByte_append:
  "c \<notin> set p \<Longrightarrow> IndexByte (p @ c # v) c = Some (length p)"
  by (induction p) auto

lemma parseBoolFlag_value:
  "CHR ''='' \<notin> set flag \<Longrightarrow>
   parseBoolFlag X (flag @ ''='' @ v) d =
     (if v = ''false'' then Inr False
      else if v = ''true'' then Inr True
      else Inl (invalidValue X v (flag @ ''='' @ v) ''Valid values are \"true\" or \"false\".''))"
  by (simp add: parseBoolFlag_def IndexByte_append)

lemma parseArg_treeShaking:
  "parseArg X kind ''--tree-shaking'' s =
     withBool X ''--tree-shaking'' (\<lambda>v. onEither
       (\<lambda>b. b\<lparr>BuildOptions.TreeShaking := (if v then TreeShakingTrue else TreeShakingFalse)\<rparr>)
       (\<lambda>t. t\<lparr>TransformOptions.TreeShaking := (if v then TreeShakingTrue else TreeShakingFalse)\<rparr>) s)"
  "parseArg X kind (''--tree-shaking='' @ v) s =
     withBool X (''--tree-shaking='' @ v) (\<lambda>v. onEither
       (\<lambda>b. b\<lparr>BuildOptions.TreeShaking := (if v then TreeShakingTrue else TreeShakingFalse)\<rparr>)
       (\<lambda>t. t\<lparr>TransformOptions.TreeShaking := (if v then TreeShakingTrue else TreeShakingFalse)\<rparr>) s)"
  by (simp_all add: parseArg_def seg_defs isBoolFlag_def HasPrefix_def after_def)

lemma parseArg_splitting_build:
  assumes "buildOpts s \<noteq> None"
  shows "parseArg X kind ''--splitting'' s =
           withBool X ''--splitting'' (\<lambda>v. onBuild (\<lambda>b. b\<lparr>Splitting := v\<rparr>) s)"
    and "parseArg X kind (''--splitting='' @ v) s =
           withBool X (''--splitting='' @ v) (\<lambda>v. onBuild (\<lambda>b. b\<lparr>Splitting := v\<rparr>) s)"
  using assms
  by (simp_all add: parseArg_def seg_defs isBoolFlag_def HasPrefix_def after_def)

lemma parseArg_splitting_transform:
  assumes "buildOpts s = None"
  shows "parseArg X kind ''--splitting'' s = Inl (Error (invalidFlag X ''--splitting'' s))"
    and "parseArg X kind (''--splitting='' @ v) s =
           Inl (Error (invalidFlag X (''--splitting='' @ v) s))"
  using assms
  by (simp_all add: parseArg_def seg_defs isBoolFlag_def HasPrefix_def after_def)

lemma onEither_withTreeShaking:
  "buildOpts s \<noteq> None \<or> transformOpts s \<noteq> None \<Longrightarrow>
   onEither (\<lambda>b. b\<lparr>BuildOptions.TreeShaking := x\<rparr>)
            (\<lambda>t. t\<lparr>TransformOptions.TreeShaking := x\<rparr>) s = Inr (withTreeShaking x s)"
  by (auto simp: onEither_def onBuild_def onTransform_def withTreeShaking_def split: option.splits)

lemma onBuild_withSplitting:
  "buildOpts s \<noteq> None \<Longrightarrow> onBuild (\<lambda>b. b\<lparr>Splitting := x\<rparr>) s = Inr (withSplitting x s)"
  by (auto simp: onBuild_def withSplitting_def split: option.splits)

text \<open>
  C3, as the code has it. With one of the two option structs present, the bare flag
  \<open>--tree-shaking\<close> sets the option to \<open>TreeShakingTrue\<close>, \<open>=true\<close> and \<open>=false\<close> set
  \<open>TreeShakingTrue\<close> and \<open>TreeShakingFalse\<close>, and any other value is the error
  \<open>Invalid value\<close>. In build mode \<open>--splitting\<close> follows the same grammar on the
  boolean \<open>Splitting\<close>. In transform mode there is no such option: \<open>--splitting\<close>, with
  or without a value, is the error \<open>Invalid transform flag\<close>.
\<close>

theorem boolean_flags:
  assumes "buildOpts s \<noteq> None \<or> transformOpts s \<noteq> None"
  shows "parseArg X kind ''--tree-shaking'' s = Inr (withTreeShaking TreeShakingTrue s) \<and>
         parseArg X kind (''--tree-shaking='' @ v) s =
           (if v = ''true'' then Inr (withTreeShaking TreeShakingTrue s)
            else if v = ''false'' then Inr (withTreeShaking TreeShakingFalse s)
            else Inl (Error (invalidValue X v (''--tree-shaking='' @ v)
                   ''Valid values are \"true\" or \"false\".''))) \<and>
         (buildOpts s \<noteq> None \<longrightarrow>
            parseArg X kind ''--splitting'' s = Inr (withSplitting True s) \<and>
            parseArg X kind (''--splitting='' @ v) s =
              (if v = ''true'' then Inr (withSplitting True s)
               else if v = ''false'' then Inr (withSplitting False s)
               else Inl (Error (invalidValue X v (''--splitting='' @ v)
                      ''Valid values are \"true\" or \"false\".'')))) \<and>
         (buildOpts s = None \<longrightarrow>
            parseArg X kind ''--splitting'' s = Inl (Error (invalidFlag X ''--splitting'' s)) \<and>
            parseArg X kind (''--splitting='' @ v) s =
              Inl (Error (invalidFlag X (''--splitting='' @ v) s)))"
proof -
  have bare: "parseBoolFlag X ''--tree-shaking'' True = Inr True"
              "parseBoolFlag X ''--splitting'' True = Inr True"
    by (simp_all add: parseBoolFlag_bare)
  have val: "parseBoolFlag X (''--tree-shaking='' @ v) True =
     (if v = ''false'' then Inr False
      else if v = ''true'' then Inr True
      else Inl (invalidValue X v (''--tree-shaking='' @ v) ''Valid values are \"true\" or \"false\".''))"
    "parseBoolFlag X (''--splitting='' @ v) True =
     (if v = ''false'' then Inr False
      else if v = ''true'' then Inr True
      else Inl (invalidValue X v (''--splitting='' @ v) ''Valid values are \"true\" or \"false\".''))"
    using parseBoolFlag_value[of "''--tree-shaking''" X v True]
          parseBoolFlag_value[of "''--splitting''" X v True] by simp_all
  have t1: "parseArg X kind ''--tree-shaking'' s = Inr (withTreeShaking TreeShakingTrue s)"
    unfolding parseArg_treeShaking(1) using assms bare(1)
    by (simp add: withBool_def onEither_withTreeShaking)
  have t2: "parseArg X kind (''--tree-shaking='' @ v) s =
           (if v = ''true'' then Inr (withTreeShaking TreeShakingTrue s)
            else if v = ''false'' then Inr (withTreeShaking TreeShakingFalse s)
            else Inl (Error (invalidValue X v (''--tree-shaking='' @ v)
                   ''Valid values are \"true\" or \"false\".'')))"
    unfolding parseArg_treeShaking(2) using assms val(1)
    by (simp add: withBool_def onEither_withTreeShaking)
  have s1: "parseArg X kind ''--splitting'' s = Inr (withSplitting True s)"
    if b: "buildOpts s \<noteq> None"
    unfolding parseArg_splitting_build(1)[OF b] using b bare(2)
    by (simp add: withBool_def onBuild_withSplitting)
  have s2: "parseArg X kind (''--splitting='' @ v) s =
              (if v = ''true'' then Inr (withSplitting True s)
               else if v = ''false'' then Inr (withSplitting False s)
               else Inl (Error (invalidValue X v (''--splitting='' @ v)
                      ''Valid values are \"true\" or \"false\".'')))"
    if b: "buildOpts s \<noteq> None"
    unfolding parseArg_splitting_build(2)[OF b] using b val(2)
    by (simp add: withBool_def onBuild_withSplitting)
  show ?thesis
    using t1 t2 s1 s2 parseArg_splitting_transform(1)[of s X kind]
          parseArg_splitting_transform(2)[of s X kind v] by blast
qed

theorem boolean_flags_witness:
  "parseArg sampleExternals kindInternal ''--tree-shaking=false'' (buildState newBuildOptions) =
     Inr (withTreeShaking TreeShakingFalse (buildState newBuildOptions)) \<and>
   parseArg sampleExternals kindInternal ''--splitting'' (buildState newBuildOptions) =
     Inr (withSplitting True (buildState newBuildOptions)) \<and>
   parseArg sampleExternals kindInternal ''--splitting=true''
       (transformState (newTransformOptions sampleExternals)) =
     Inl (Error (invalidFlag sampleExternals ''--splitting=true''
       (transformState (newTransformOptions sampleExternals))))"
proof -
  have b: "buildOpts (buildState newBuildOptions :: (string, string) parseState) \<noteq> None"
    by (simp add: buildState_def)
  have t: "buildOpts (transformState (newTransformOptions sampleExternals)) = None"
          "transformOpts (transformState (newTransformOptions sampleExternals)) \<noteq> None"
    by (simp_all add: transformState_def)
  show ?thesis
    using boolean_flags[of "buildState newBuildOptions" sampleExternals kindInternal "''false''"]
          boolean_flags[of "transformState (newTransformOptions sampleExternals)" sampleExternals
            kindInternal "''true''"] b t
    by simp
qed

text \<open>
  C3 as stated fails in transform mode: the bare flag \<open>--splitting\<close> sets nothing and the
  parse ends with an error.
\<close>

theorem splitting_transform_counterexample:
  "parseOptionsImpl sampleExternals [''--splitting''] None
     (Some (newTransformOptions sampleExternals)) kindInternal =
   (None, Some (newTransformOptions sampleExternals), noExtras,
    Some (Error \<lparr>Text = ''Invalid transform flag: \"--splitting\"'', Note = []\<rparr>))"
  by (simp add: parseOptionsImpl_def parseArg_splitting_transform(1) invalidFlag_def flagNote_def
        doubleDashNote_def MakeErrorWithNote_def HasPrefix_def sampleExternals_def)

subsection \<open>Entry points\<close>

lemma IndexByte_None_iff: "IndexByte s c = None \<longleftrightarrow> c \<notin> set s"
  by (induction s) auto

lemma IndexByte_Some:
  "IndexByte s c = Some i \<Longrightarrow>
   c \<in> set s \<and> take i s = takeWhile (\<lambda>x. x \<noteq> c) s \<and> drop (i + 1) s = tl (dropWhile (\<lambda>x. x \<noteq> c) s)"
  by (induction s arbitrary: i) (auto split: if_splits)

lemma no_dash:
  assumes "\<not> HasPrefix arg ''-''"
  shows "HasPrefix arg (CHR ''-'' # p) = False" "isBoolFlag arg (CHR ''-'' # p) = False"
    "(arg = CHR ''-'' # p) = False"
  using assms by (cases arg; auto simp: HasPrefix_def isBoolFlag_def)+

lemma parseArg_entryPoint:
  assumes "buildOpts s = Some b" "\<not> HasPrefix arg ''-''"
    "\<not> HasPrefix arg [CHR 0x27, CHR ''-'', CHR ''-'']"
  shows "parseArg X kind arg s =
     Inr (s\<lparr>buildOpts := Some
       (if CHR ''='' \<in> set arg
        then b\<lparr>EntryPointsAdvanced := EntryPointsAdvanced b @
               [\<lparr>InputPath = tl (dropWhile (\<lambda>c. c \<noteq> CHR ''='') arg),
                 OutputPath = takeWhile (\<lambda>c. c \<noteq> CHR ''='') arg\<rparr>]\<rparr>
        else b\<lparr>EntryPoints := EntryPoints b @ [arg]\<rparr>)\<rparr>)"
proof (cases "IndexByte arg CHR ''=''")
  case None
  then have "CHR ''='' \<notin> set arg" by (simp add: IndexByte_None_iff)
  then show ?thesis using assms None
    by (simp add: parseArg_def seg_defs no_dash onBuild_def)
next
  case (Some i)
  then show ?thesis using assms IndexByte_Some[OF Some]
    by (simp add: parseArg_def seg_defs no_dash onBuild_def)
qed

lemma parseArg_quoted:
  assumes "HasPrefix arg [CHR 0x27, CHR ''-'', CHR ''-'']"
  shows "\<exists>e. parseArg X kind arg s = Inl (Error e)"
proof -
  have "\<not> HasPrefix arg ''-''" using assms by (cases arg) (auto simp: HasPrefix_def)
  then show ?thesis using assms by (simp add: parseArg_def seg_defs no_dash)
qed

lemma parseArgs_entryPoints:
  "parseArgs X kind osArgs s = (s', None) \<Longrightarrow> buildOpts s = Some b \<Longrightarrow>
   \<exists>b'. buildOpts s' = Some b' \<and>
     EntryPoints b' = EntryPoints b @ plainEntryPoints osArgs \<and>
     EntryPointsAdvanced b' = EntryPointsAdvanced b @ advancedEntryPoints osArgs"
proof (induction osArgs arbitrary: s b)
  case Nil
  then show ?case by (simp add: plainEntryPoints_def advancedEntryPoints_def)
next
  case (Cons arg rest)
  from Cons.prems(1) obtain s1 where s1: "parseArg X kind arg s = Inr s1"
    and rest: "parseArgs X kind rest s1 = (s', None)"
    by (cases "parseArg X kind arg s") auto
  show ?case
  proof (cases "HasPrefix arg ''-''")
    case True
    from parseArg_frame[OF s1 Cons.prems(2)] True obtain b1 where b1: "buildOpts s1 = Some b1"
      "EntryPoints b1 = EntryPoints b" "EntryPointsAdvanced b1 = EntryPointsAdvanced b"
      by auto
    from Cons.IH[OF rest b1(1)] b1 True show ?thesis
      by (auto simp: plainEntryPoints_def advancedEntryPoints_def)
  next
    case False
    have nq: "\<not> HasPrefix arg [CHR 0x27, CHR ''-'', CHR ''-'']"
      using parseArg_quoted[of arg X kind s] s1 by auto
    note step = parseArg_entryPoint[OF Cons.prems(2) False nq, of X kind]
    show ?thesis
    proof (cases "CHR ''='' \<in> set arg")
      case True
      then have "buildOpts s1 = Some (b\<lparr>EntryPointsAdvanced := EntryPointsAdvanced b @
               [\<lparr>InputPath = tl (dropWhile (\<lambda>c. c \<noteq> CHR ''='') arg),
                 OutputPath = takeWhile (\<lambda>c. c \<noteq> CHR ''='') arg\<rparr>]\<rparr>)"
        using step s1 by auto
      from Cons.IH[OF rest this] True False show ?thesis
        by (auto simp: plainEntryPoints_def advancedEntryPoints_def)
    next
      case no: False
      then have "buildOpts s1 = Some (b\<lparr>EntryPoints := EntryPoints b @ [arg]\<rparr>)"
        using step s1 by auto
      from Cons.IH[OF rest this] no False show ?thesis
        by (auto simp: plainEntryPoints_def advancedEntryPoints_def)
    qed
  qed
qed

text \<open>
  C4, as the code has it. In build mode an argument that starts neither with a dash nor
  with \<open>'--\<close> is appended as an entry point: to \<open>EntryPointsAdvanced\<close> when it has an
  equals sign, split at the first one, and to \<open>EntryPoints\<close> unchanged otherwise. When
  \<^verbatim>\<open>parseOptionsImpl\<close> returns without an error, the two lists are the ones it
  started with, followed by the arguments without a leading dash, in the order of the
  command line.
\<close>

theorem entry_points_in_order:
  "(buildOpts s = Some b \<and> \<not> HasPrefix arg ''-'' \<and>
      \<not> HasPrefix arg [CHR 0x27, CHR ''-'', CHR ''-''] \<longrightarrow>
    parseArg X kind arg s =
      Inr (s\<lparr>buildOpts := Some
        (if CHR ''='' \<in> set arg
         then b\<lparr>EntryPointsAdvanced := EntryPointsAdvanced b @
                [\<lparr>InputPath = tl (dropWhile (\<lambda>c. c \<noteq> CHR ''='') arg),
                  OutputPath = takeWhile (\<lambda>c. c \<noteq> CHR ''='') arg\<rparr>]\<rparr>
         else b\<lparr>EntryPoints := EntryPoints b @ [arg]\<rparr>)\<rparr>)) \<and>
   (HasPrefix arg [CHR 0x27, CHR ''-'', CHR ''-''] \<longrightarrow>
      (\<exists>e. parseArg X kind arg s = Inl (Error e))) \<and>
   (parseOptionsImpl X osArgs (Some b0) t kind = (bo, to, ex, None) \<longrightarrow>
      (\<exists>b'. bo = Some b' \<and>
         EntryPoints b' = EntryPoints b0 @ plainEntryPoints osArgs \<and>
         EntryPointsAdvanced b' = EntryPointsAdvanced b0 @ advancedEntryPoints osArgs))"
proof -
  have whole: "\<exists>b'. bo = Some b' \<and>
         EntryPoints b' = EntryPoints b0 @ plainEntryPoints osArgs \<and>
         EntryPointsAdvanced b' = EntryPointsAdvanced b0 @ advancedEntryPoints osArgs"
    if p: "parseOptionsImpl X osArgs (Some b0) t kind = (bo, to, ex, None)"
  proof -
    obtain s' r where l: "parseArgs X kind osArgs
        \<lparr>buildOpts = Some b0, transformOpts = t, extras = noExtras,
         hasBareSourceMapFlag = False\<rparr> = (s', r)"
      by (cases "parseArgs X kind osArgs \<lparr>buildOpts = Some b0, transformOpts = t,
        extras = noExtras, hasBareSourceMapFlag = False\<rparr>") auto
    have r: "r = None" using p l by (cases r) (auto simp: parseOptionsImpl_def)
    from parseArgs_entryPoints[OF l[unfolded r], of b0] obtain b1 where
      b1: "buildOpts s' = Some b1" "EntryPoints b1 = EntryPoints b0 @ plainEntryPoints osArgs"
        "EntryPointsAdvanced b1 = EntryPointsAdvanced b0 @ advancedEntryPoints osArgs"
      by auto
    have "bo = Some b1 \<or> bo = Some (b1\<lparr>BuildOptions.Sourcemap := SourceMapInline\<rparr>)"
      using p l r b1(1) by (simp add: parseOptionsImpl_def split: if_splits)
    then show ?thesis using b1(2,3) by auto
  qed
  show ?thesis
    using parseArg_entryPoint[of s b arg X kind] parseArg_quoted[of arg X kind s] whole
    by blast
qed

lemma sample_build_run:
  "snd (snd (snd (parseOptionsImpl sampleExternals
      [''src/a.ts'', ''--bundle'', ''out/b=src/b.ts'', ''c.js'']
      (Some newBuildOptions) None kindInternal))) = None"
  by (simp add: parseOptionsImpl_def parseArg_def seg_defs isBoolFlag_def HasPrefix_def
        withBool_def parseBoolFlag_def onBuild_def)

theorem entry_points_in_order_witness:
  "parseArg sampleExternals kindInternal ''out/b=src/b.ts'' (buildState newBuildOptions) =
     Inr ((buildState newBuildOptions)\<lparr>buildOpts := Some
       (newBuildOptions\<lparr>EntryPointsAdvanced :=
          [\<lparr>InputPath = ''src/b.ts'', OutputPath = ''out/b''\<rparr>]\<rparr>)\<rparr>) \<and>
   (\<exists>b'. fst (parseOptionsImpl sampleExternals
        [''src/a.ts'', ''--bundle'', ''out/b=src/b.ts'', ''c.js'']
        (Some newBuildOptions) None kindInternal) = Some b' \<and>
     EntryPoints b' = [''src/a.ts'', ''c.js''] \<and>
     EntryPointsAdvanced b' = [\<lparr>InputPath = ''src/b.ts'', OutputPath = ''out/b''\<rparr>])"
proof -
  obtain bo to ex r where p: "parseOptionsImpl sampleExternals
      [''src/a.ts'', ''--bundle'', ''out/b=src/b.ts'', ''c.js'']
      (Some newBuildOptions) None kindInternal = (bo, to, ex, r)"
    using prod_cases4 by blast
  have r: "r = None" using sample_build_run p by simp
  have b: "buildOpts (buildState newBuildOptions :: (string, string) parseState) =
             Some newBuildOptions"
    by (simp add: buildState_def)
  show ?thesis
    using entry_points_in_order[where s = "buildState newBuildOptions" and b = newBuildOptions
        and arg = "''out/b=src/b.ts''" and X = sampleExternals and kind = kindInternal
        and osArgs = "[''src/a.ts'', ''--bundle'', ''out/b=src/b.ts'', ''c.js'']"
        and ?b0.0 = newBuildOptions and t = None and bo = bo and to = to and ex = ex]
      p r b
    by (auto simp: plainEntryPoints_def advancedEntryPoints_def HasPrefix_def newBuildOptions_def)
qed

text \<open>
  C4 as stated fails for an argument that starts with \<open>'--\<close>: it does not start with a
  dash, and it is rejected, not taken as an entry point.
\<close>

theorem quoted_flag_counterexample:
  "\<not> HasPrefix [CHR 0x27, CHR ''-'', CHR ''-'', CHR ''m'', CHR ''i'', CHR ''n'', CHR ''i'',
       CHR ''f'', CHR ''y'', CHR 0x27] ''-'' \<and>
   parseOptionsImpl sampleExternals
     [[CHR 0x27, CHR ''-'', CHR ''-'', CHR ''m'', CHR ''i'', CHR ''n'', CHR ''i'', CHR ''f'',
       CHR ''y'', CHR 0x27]]
     (Some newBuildOptions) None kindInternal =
   (Some newBuildOptions, None, noExtras,
    Some (Error (MakeErrorWithNote
      (''Unexpected single quote character before flag: '' @
       [CHR 0x27, CHR ''-'', CHR ''-'', CHR ''m'', CHR ''i'', CHR ''n'', CHR ''i'', CHR ''f'',
        CHR ''y'', CHR 0x27])
      (''This typically happens when attempting to use single quotes to quote arguments with '' @
       ''a shell that doesn't recognize single quotes. Try using double quote characters to '' @
       ''quote arguments instead.''))))"
  by (simp add: parseOptionsImpl_def parseArg_def seg_defs isBoolFlag_def HasPrefix_def)

subsection \<open>The source-map flags\<close>

lemma parseArg_sourcemap_bare:
  "buildOpts s = Some b \<Longrightarrow>
   parseArg X kind ''--sourcemap'' s =
     Inr (s\<lparr>buildOpts := Some (b\<lparr>BuildOptions.Sourcemap := SourceMapLinked\<rparr>),
           hasBareSourceMapFlag := True\<rparr>)"
  by (simp add: parseArg_def seg_defs isBoolFlag_def HasPrefix_def onEither_def onBuild_def)

lemma parseArg_sourcemap_value:
  "parseArg X kind (''--sourcemap='' @ v) s = Inr s' \<Longrightarrow> \<not> hasBareSourceMapFlag s'"
  by (auto simp add: parseArg_def seg_defs isBoolFlag_def HasPrefix_def after_def
        split: option.splits sum.splits)

lemma lastSourceMapFlagIsBare_Cons:
  "lastSourceMapFlagIsBare (arg # rest) =
     (if filter isSourceMapFlag rest = [] then arg = ''--sourcemap''
      else lastSourceMapFlagIsBare rest)"
  by (cases "rev (filter isSourceMapFlag rest)")
     (auto simp: lastSourceMapFlagIsBare_def isSourceMapFlag_def HasPrefix_def)

lemma parseArgs_sourcemap:
  "parseArgs X kind osArgs s = (s', None) \<Longrightarrow> buildOpts s = Some b \<Longrightarrow>
   \<exists>b'. buildOpts s' = Some b' \<and>
     (if filter isSourceMapFlag osArgs = []
      then hasBareSourceMapFlag s' = hasBareSourceMapFlag s \<and>
           BuildOptions.Sourcemap b' = BuildOptions.Sourcemap b
      else hasBareSourceMapFlag s' = lastSourceMapFlagIsBare osArgs \<and>
           (hasBareSourceMapFlag s' \<longrightarrow> BuildOptions.Sourcemap b' = SourceMapLinked))"
proof (induction osArgs arbitrary: s b)
  case Nil
  then show ?case by simp
next
  case (Cons arg rest)
  from Cons.prems(1) obtain s1 where s1: "parseArg X kind arg s = Inr s1"
    and rest: "parseArgs X kind rest s1 = (s', None)"
    by (cases "parseArg X kind arg s") auto
  from parseArg_frame[OF s1 Cons.prems(2)] obtain b1 where b1: "buildOpts s1 = Some b1"
    and frame: "\<not> isSourceMapFlag arg \<Longrightarrow>
      BuildOptions.Sourcemap b1 = BuildOptions.Sourcemap b \<and>
      hasBareSourceMapFlag s1 = hasBareSourceMapFlag s"
    by auto
  from Cons.IH[OF rest b1] obtain b' where b': "buildOpts s' = Some b'"
    and ih: "if filter isSourceMapFlag rest = []
      then hasBareSourceMapFlag s' = hasBareSourceMapFlag s1 \<and>
           BuildOptions.Sourcemap b' = BuildOptions.Sourcemap b1
      else hasBareSourceMapFlag s' = lastSourceMapFlagIsBare rest \<and>
           (hasBareSourceMapFlag s' \<longrightarrow> BuildOptions.Sourcemap b' = SourceMapLinked)"
    by auto
  consider (other) "\<not> isSourceMapFlag arg" | (bare) "arg = ''--sourcemap''"
    | (val) v where "arg = ''--sourcemap='' @ v"
    by (auto simp: isSourceMapFlag_def HasPrefix_iff)
  then show ?case
  proof cases
    case other
    then show ?thesis using frame ih b' by (auto simp: lastSourceMapFlagIsBare_Cons)
  next
    case bare
    then have "hasBareSourceMapFlag s1 \<and> BuildOptions.Sourcemap b1 = SourceMapLinked"
      using s1 b1 parseArg_sourcemap_bare[OF Cons.prems(2), of X kind] by auto
    then show ?thesis using ih b' bare
      by (auto simp: lastSourceMapFlagIsBare_Cons isSourceMapFlag_def split: if_splits)
  next
    case val
    then have "\<not> hasBareSourceMapFlag s1" using s1 parseArg_sourcemap_value by blast
    moreover have "isSourceMapFlag arg" "arg \<noteq> ''--sourcemap''"
      using val by (auto simp: isSourceMapFlag_def HasPrefix_def)
    ultimately show ?thesis using ih b'
      by (auto simp: lastSourceMapFlagIsBare_Cons split: if_splits)
  qed
qed

text \<open>
  C9. In build mode, when the parse succeeds and the last source-map flag of the command
  line is the bare \<open>--sourcemap\<close>, the final \<open>Sourcemap\<close> is \<open>SourceMapInline\<close> if
  \<open>Outfile\<close> and \<open>Outdir\<close> are both empty, and \<open>SourceMapLinked\<close> otherwise.
\<close>

theorem bare_sourcemap_fallback:
  assumes "parseOptionsImpl X osArgs (Some b) t kind = (Some b', t', ex, None)"
    and "lastSourceMapFlagIsBare osArgs"
  shows "BuildOptions.Sourcemap b' =
           (if Outfile b' = [] \<and> Outdir b' = [] then SourceMapInline else SourceMapLinked)"
proof -
  obtain s' r where l: "parseArgs X kind osArgs
      \<lparr>buildOpts = Some b, transformOpts = t, extras = noExtras,
       hasBareSourceMapFlag = False\<rparr> = (s', r)"
    by (cases "parseArgs X kind osArgs \<lparr>buildOpts = Some b, transformOpts = t,
      extras = noExtras, hasBareSourceMapFlag = False\<rparr>") auto
  have r: "r = None" using assms(1) l by (cases r) (auto simp: parseOptionsImpl_def)
  have ne: "filter isSourceMapFlag osArgs \<noteq> []"
    using assms(2) by (auto simp: lastSourceMapFlagIsBare_def)
  from parseArgs_sourcemap[OF l[unfolded r], of b] ne assms(2) obtain b1 where
    b1: "buildOpts s' = Some b1" "hasBareSourceMapFlag s'"
        "BuildOptions.Sourcemap b1 = SourceMapLinked"
    by auto
  show ?thesis using assms(1) l r b1 by (auto simp: parseOptionsImpl_def split: if_splits)
qed

lemma sample_sourcemap_run:
  "parseOptionsImpl sampleExternals [''--sourcemap=external'', ''app.js'', ''--sourcemap'']
      (Some newBuildOptions) None kindInternal =
   (Some (newBuildOptions\<lparr>BuildOptions.Sourcemap := SourceMapInline, EntryPoints := [''app.js'']\<rparr>),
    None, noExtras, None)"
  by (simp add: parseOptionsImpl_def parseArg_def seg_defs isBoolFlag_def HasPrefix_def after_def
        sourcemapOf_def onEither_def onBuild_def newBuildOptions_def)

lemma sample_sourcemap_outfile_run:
  "parseOptionsImpl sampleExternals [''--sourcemap'', ''app.js'', ''--outfile=out.js'']
      (Some newBuildOptions) None kindInternal =
   (Some (newBuildOptions\<lparr>BuildOptions.Sourcemap := SourceMapLinked, EntryPoints := [''app.js''],
      Outfile := ''out.js''\<rparr>),
    None, noExtras, None)"
  by (simp add: parseOptionsImpl_def parseArg_def seg_defs isBoolFlag_def HasPrefix_def after_def
        onEither_def onBuild_def newBuildOptions_def)

theorem bare_sourcemap_fallback_witness:
  "lastSourceMapFlagIsBare [''--sourcemap=external'', ''app.js'', ''--sourcemap''] \<and>
   (\<exists>b'. fst (parseOptionsImpl sampleExternals
            [''--sourcemap=external'', ''app.js'', ''--sourcemap'']
            (Some newBuildOptions) None kindInternal) = Some b' \<and>
         Outfile b' = [] \<and> Outdir b' = [] \<and> BuildOptions.Sourcemap b' = SourceMapInline) \<and>
   lastSourceMapFlagIsBare [''--sourcemap'', ''app.js'', ''--outfile=out.js''] \<and>
   (\<exists>b'. fst (parseOptionsImpl sampleExternals
            [''--sourcemap'', ''app.js'', ''--outfile=out.js'']
            (Some newBuildOptions) None kindInternal) = Some b' \<and>
         Outfile b' = ''out.js'' \<and> BuildOptions.Sourcemap b' = SourceMapLinked)"
proof -
  have l1: "lastSourceMapFlagIsBare [''--sourcemap=external'', ''app.js'', ''--sourcemap'']"
    and l2: "lastSourceMapFlagIsBare [''--sourcemap'', ''app.js'', ''--outfile=out.js'']"
    by (simp_all add: lastSourceMapFlagIsBare_def isSourceMapFlag_def HasPrefix_def)
  let ?b1 = "newBuildOptions\<lparr>BuildOptions.Sourcemap := SourceMapInline,
      EntryPoints := [''app.js'']\<rparr> :: (string, string) BuildOptions"
  let ?b2 = "newBuildOptions\<lparr>BuildOptions.Sourcemap := SourceMapLinked,
      EntryPoints := [''app.js''], Outfile := ''out.js''\<rparr> :: (string, string) BuildOptions"
  have "BuildOptions.Sourcemap ?b1 =
      (if Outfile ?b1 = [] \<and> Outdir ?b1 = [] then SourceMapInline else SourceMapLinked)"
    using bare_sourcemap_fallback[OF sample_sourcemap_run l1] .
  then have a1: "Outfile ?b1 = [] \<and> Outdir ?b1 = [] \<and> BuildOptions.Sourcemap ?b1 = SourceMapInline"
    by (simp add: newBuildOptions_def)
  have "BuildOptions.Sourcemap ?b2 =
      (if Outfile ?b2 = [] \<and> Outdir ?b2 = [] then SourceMapInline else SourceMapLinked)"
    using bare_sourcemap_fallback[OF sample_sourcemap_outfile_run l2] .
  then have a2: "Outfile ?b2 = ''out.js'' \<and> BuildOptions.Sourcemap ?b2 = SourceMapLinked"
    by simp
  have e1: "fst (parseOptionsImpl sampleExternals
            [''--sourcemap=external'', ''app.js'', ''--sourcemap'']
            (Some newBuildOptions) None kindInternal) = Some ?b1"
    by (simp add: sample_sourcemap_run)
  have e2: "fst (parseOptionsImpl sampleExternals
            [''--sourcemap'', ''app.js'', ''--outfile=out.js'']
            (Some newBuildOptions) None kindInternal) = Some ?b2"
    by (simp add: sample_sourcemap_outfile_run)
  show ?thesis using l1 l2 a1 a2 e1 e2 by blast
qed

subsection \<open>Mode selection\<close>

lemma parseOptionsImpl_shape:
  assumes "parseOptionsImpl X osArgs bo to kind = (bo', to', ex, r)"
  shows "(bo' = None \<longleftrightarrow> bo = None) \<and> (to' = None \<longleftrightarrow> to = None) \<and>
         (bo \<noteq> None \<or> to \<noteq> None \<longrightarrow> r \<noteq> Some NilDereference) \<and>
         (r \<noteq> None \<longrightarrow> ex = noExtras)"
proof -
  let ?s = "\<lparr>buildOpts = bo, transformOpts = to, extras = noExtras,
             hasBareSourceMapFlag = False\<rparr>"
  obtain s' r' where l: "parseArgs X kind osArgs ?s = (s', r')"
    by (cases "parseArgs X kind osArgs ?s") auto
  have m: "sameMode ?s s'" using l by (rule parseArgs_mode)
  have p: "r' = Some NilDereference \<Longrightarrow> bo = None \<and> to = None"
    using parseArgs_panic[of X kind osArgs ?s s'] l by simp
  show ?thesis
  proof (cases r')
    case None
    show ?thesis
    proof (cases "buildOpts s'")
      case nob: None
      then show ?thesis using assms l m None by (auto simp: parseOptionsImpl_def sameMode_def)
    next
      case (Some b1)
      then have "parseOptionsImpl X osArgs bo to kind =
          (if hasBareSourceMapFlag s' \<and> Outfile b1 = [] \<and> Outdir b1 = []
           then (Some (b1\<lparr>BuildOptions.Sourcemap := SourceMapInline\<rparr>), transformOpts s',
                 extras s', None)
           else (Some b1, transformOpts s', extras s', None))"
        using l None by (simp add: parseOptionsImpl_def)
      then have "bo' \<noteq> None \<and> to' = transformOpts s' \<and> r = None"
        unfolding assms by (simp split: if_splits)
      then show ?thesis using m Some by (auto simp: sameMode_def)
    qed
  next
    case (Some f)
    then show ?thesis using assms l m p
      by (auto simp: parseOptionsImpl_def sameMode_def)
  qed
qed

lemma runAsBuild_shape:
  "\<exists>bo ex err. runAsBuild X osArgs = (bo, None, ex, err) \<and>
     ((\<exists>b. bo = Some b) \<and> err = None \<or>
      bo = None \<and> ex = noExtras \<and> (\<exists>e. err = Some (Error e)))"
proof -
  let ?o = "newBuildOptions\<lparr>BuildOptions.LogLimit := 6, BuildOptions.LogLevel := LogLevelInfo,
              Write := True\<rparr> :: ('a, 'b) BuildOptions"
  obtain bo' to' ex r where p: "parseOptionsImpl X osArgs (Some ?o) None kindInternal = (bo', to', ex, r)"
    using prod_cases4 by blast
  note sh = parseOptionsImpl_shape[OF p]
  show ?thesis
  proof (cases r)
    case None
    then show ?thesis using p sh by (auto simp: runAsBuild_def Let_def)
  next
    case (Some f)
    then have "f \<noteq> NilDereference" using sh by auto
    then obtain e where "f = Error e" by (cases f) auto
    then show ?thesis using p Some by (auto simp: runAsBuild_def Let_def)
  qed
qed

lemma runAsTransform_shape:
  "\<exists>to err. runAsTransform X osArgs = (None, to, noExtras, err) \<and>
     ((\<exists>t. to = Some t) \<and> err = None \<or> to = None \<and> (\<exists>e. err = Some (Error e)))"
proof -
  let ?o = "(newTransformOptions X)\<lparr>TransformOptions.LogLimit := 6,
              TransformOptions.LogLevel := LogLevelInfo\<rparr>"
  obtain bo' to' ex r where p: "parseOptionsImpl X osArgs None (Some ?o) kindInternal = (bo', to', ex, r)"
    using prod_cases4 by blast
  note sh = parseOptionsImpl_shape[OF p]
  show ?thesis
  proof (cases r)
    case None
    then obtain t where "to' = Some t" using sh by auto
    then show ?thesis using p None by (auto simp: runAsTransform_def Let_def)
  next
    case (Some f)
    then have "f \<noteq> NilDereference" using sh by auto
    then obtain e where "f = Error e" by (cases f) auto
    then show ?thesis using p Some by (auto simp: runAsTransform_def Let_def)
  qed
qed

text \<open>
  C8. \<^verbatim>\<open>parseOptionsForRun\<close> takes the build branch exactly when some argument does
  not start with a dash or is \<open>--bundle\<close>, and the transform branch otherwise. It
  never panics, and it returns one of three shapes: build options alone, transform
  options alone, or an error with neither.
\<close>

theorem mode_selection:
  "parseOptionsForRun X osArgs =
     (if \<exists>arg \<in> set osArgs. \<not> HasPrefix arg ''-'' \<or> arg = ''--bundle''
      then runAsBuild X osArgs else runAsTransform X osArgs) \<and>
   (\<exists>bo to ex err. parseOptionsForRun X osArgs = (bo, to, ex, err) \<and>
      ((\<exists>b. bo = Some b) \<and> to = None \<and> err = None \<and>
         (\<exists>arg \<in> set osArgs. \<not> HasPrefix arg ''-'' \<or> arg = ''--bundle'') \<or>
       bo = None \<and> (\<exists>t. to = Some t) \<and> err = None \<and>
         \<not> (\<exists>arg \<in> set osArgs. \<not> HasPrefix arg ''-'' \<or> arg = ''--bundle'') \<or>
       bo = None \<and> to = None \<and> ex = noExtras \<and> (\<exists>e. err = Some (Error e))))"
proof -
  have eq: "parseOptionsForRun X osArgs =
     (if \<exists>arg \<in> set osArgs. \<not> HasPrefix arg ''-'' \<or> arg = ''--bundle''
      then runAsBuild X osArgs else runAsTransform X osArgs)"
    using parseOptionsForRun_eq[of X osArgs] by (simp add: isArgForBuild_def)
  show ?thesis
  proof (cases "\<exists>arg \<in> set osArgs. \<not> HasPrefix arg ''-'' \<or> arg = ''--bundle''")
    case True
    then show ?thesis using eq runAsBuild_shape[of X osArgs] by auto
  next
    case False
    then show ?thesis using eq runAsTransform_shape[of X osArgs] by auto
  qed
qed

theorem mode_selection_witness:
  "parseOptionsForRun sampleExternals [''--minify'', ''app.js''] =
     runAsBuild sampleExternals [''--minify'', ''app.js''] \<and>
   parseOptionsForRun sampleExternals [''--minify'', ''--bundle''] =
     runAsBuild sampleExternals [''--minify'', ''--bundle''] \<and>
   parseOptionsForRun sampleExternals [''--minify'', ''--format=esm''] =
     runAsTransform sampleExternals [''--minify'', ''--format=esm'']"
  using mode_selection[of sampleExternals "[''--minify'', ''app.js'']"]
        mode_selection[of sampleExternals "[''--minify'', ''--bundle'']"]
        mode_selection[of sampleExternals "[''--minify'', ''--format=esm'']"]
  by (simp add: HasPrefix_def)

subsection \<open>The runner\<close>

lemma parseOptionsForRun_shape:
  "\<exists>bo to ex err. parseOptionsForRun X osArgs = (bo, to, ex, err) \<and>
     ((\<exists>b. bo = Some b) \<and> to = None \<and> err = None \<or>
      bo = None \<and> (\<exists>t. to = Some t) \<and> err = None \<or>
      bo = None \<and> to = None \<and> (\<exists>e. err = Some (Error e)))"
proof (cases "\<exists>arg \<in> set osArgs. isArgForBuild arg")
  case True
  then show ?thesis
    using parseOptionsForRun_eq[of X osArgs] runAsBuild_shape[of X osArgs] by auto
next
  case False
  then show ?thesis
    using parseOptionsForRun_eq[of X osArgs] runAsTransform_shape[of X osArgs] by auto
qed

lemma writeMetafile_no_err: "writeMetafile H osArgs None wr json tr \<noteq> Inl p"
  by (simp add: writeMetafile_def)

lemma writeMangleCache_no_err: "writeMangleCache H osArgs None b wr cache tr \<noteq> Inl p"
  by (simp add: writeMangleCache_def split: option.splits)

lemma postBuildActions_no_err:
  "postBuildActions H osArgs None b metafileW mangleCacheW result tr \<noteq> Inl p"
  by (auto simp: postBuildActions_def writeMetafile_no_err writeMangleCache_no_err
        split: option.splits sum.splits)

lemma onEnd_no_err:
  "onEnd H osArgs None b analyze metafileW mangleCacheW results tr \<noteq> Inl p"
proof (induction results arbitrary: tr)
  case Nil
  then show ?case by simp
next
  case (Cons result results)
  then show ?case
    using postBuildActions_no_err[of H osArgs b metafileW mangleCacheW result]
    by (auto split: sum.splits)
qed

lemma watchOrBuild_no_err:
  "fst (watchOrBuild H osArgs None analyze b ex metafileW mangleCacheW tr) \<noteq> Panicked p"
  by (simp add: watchOrBuild_def onEnd_no_err postBuildActions_no_err split: sum.split)

lemma runBuild_no_err: "fst (runBuild X H osArgs analyze b ex None) \<noteq> Panicked p"
  by (simp add: runBuild_def watchOrBuild_no_err split: sum.split prod.split)

lemma runTransform_no_panic: "fst (runTransform H osArgs t) \<noteq> Panicked p"
  by (simp add: runTransform_def Let_def split: sum.split)

text \<open>
  C6. Whenever \<^verbatim>\<open>parseOptionsForRun\<close> returns build options it returns a nil error, so
  the writer closures of the build branch are called with \<^verbatim>\<open>err == nil\<close>, where
  neither takes its \<^verbatim>\<open>panic(err.Text)\<close> branch; and \<^verbatim>\<open>runImpl\<close> never ends in a
  panic.
\<close>

theorem runImpl_guards_unreachable:
  "(parseOptionsForRun X osArgs = (Some b, to, ex, err) \<longrightarrow> err = None) \<and>
   writeMetafile H osArgs None wr json tr \<noteq> Inl p \<and>
   writeMangleCache H osArgs None b wr cache tr \<noteq> Inl p \<and>
   fst (runImpl X H args) \<noteq> Panicked p"
proof -
  have a: "err = None" if "parseOptionsForRun X osArgs = (Some b, to, ex, err)"
    using that parseOptionsForRun_shape[of X osArgs] by auto
  have r: "fst (runImpl X H args) \<noteq> Panicked p"
  proof (cases "list_ex isServeArg args")
    case True
    then show ?thesis by (simp add: runImpl_def)
  next
    case False
    obtain osArgs' analyze where f: "filterAnalyzeFlags args = (osArgs', analyze)"
      by (cases "filterAnalyzeFlags args") auto
    from parseOptionsForRun_shape[of X osArgs'] obtain bo to' ex' err' where
      p: "parseOptionsForRun X osArgs' = (bo, to', ex', err')"
      and sh: "(\<exists>b. bo = Some b) \<and> to' = None \<and> err' = None \<or>
               bo = None \<and> (\<exists>t. to' = Some t) \<and> err' = None \<or>
               bo = None \<and> to' = None \<and> (\<exists>e. err' = Some (Error e))"
      by blast
    from sh show ?thesis
      using False f p
      by (auto simp: runImpl_def runBuild_no_err runTransform_no_panic)
  qed
  show ?thesis using a r writeMetafile_no_err writeMangleCache_no_err by blast
qed

lemma sample_metafile_run:
  "parseOptionsForRun sampleExternals [''app.js'', ''--metafile=meta.json'', ''--outfile=out.js''] =
     (Some (newBuildOptions\<lparr>BuildOptions.LogLimit := 6, BuildOptions.LogLevel := LogLevelInfo,
        Write := True, EntryPoints := [''app.js''], BuildOptions.Metafile := True,
        Outfile := ''out.js''\<rparr>),
      None, noExtras\<lparr>metafile := Some ''meta.json''\<rparr>, None)"
  by (simp add: parseOptionsForRun_def isArgForBuild_def runAsBuild_def parseOptionsImpl_def
        parseArg_def seg_defs isBoolFlag_def HasPrefix_def after_def onBuild_def noExtras_def
        newBuildOptions_def)

theorem runImpl_guards_unreachable_witness:
  "(\<exists>b. fst (parseOptionsForRun sampleExternals
           [''app.js'', ''--metafile=meta.json'', ''--outfile=out.js'']) = Some b) \<and>
   snd (snd (snd (parseOptionsForRun sampleExternals
           [''app.js'', ''--metafile=meta.json'', ''--outfile=out.js'']))) = None \<and>
   runImpl sampleExternals sampleHost [''app.js'', ''--metafile=meta.json'', ''--outfile=out.js''] =
     (Exit 1, [])"
proof -
  let ?args = "[''app.js'', ''--metafile=meta.json'', ''--outfile=out.js'']"
  obtain b to ex err where p: "parseOptionsForRun sampleExternals ?args = (Some b, to, ex, err)"
    using sample_metafile_run by blast
  have "err = None"
    using runImpl_guards_unreachable[of sampleExternals ?args b to ex err] p by blast
  moreover have "runImpl sampleExternals sampleHost ?args = (Exit 1, [])"
    by (simp add: runImpl_def isServeArg_def HasPrefix_def filterAnalyzeFlags_def
          isArgForBuild_def sample_metafile_run runBuild_def watchOrBuild_def
          withAnalysisAndNodePaths_def readStdin_def metafileWriter_def onEnd.simps
          mangleCacheWriter_def noExtras_def sampleHost_def postBuildActions_def printAnalysis_def
          writeMetafile_def Let_def newBuildOptions_def)
  ultimately show ?thesis using p by simp
qed

subsection \<open>The serve port\<close>

lemma ParseInt_decimalInteger:
  "ParseInt text 32 = Some n \<longleftrightarrow>
     decimalInteger text = Some n \<and> - (2 ^ 31) \<le> n \<and> n < 2 ^ 31"
proof (cases "text")
  case Nil
  then show ?thesis by (simp add: ParseInt_def decimalInteger_def)
next
  case (Cons c cs)
  show ?thesis
  proof (cases "c = CHR ''-''")
    case True
    then show ?thesis using Cons
      by (auto simp: ParseInt_def decimalInteger_def Let_def list_all_iff HasPrefix_def)
  next
    case False
    then show ?thesis using Cons
      by (auto simp: ParseInt_def decimalInteger_def Let_def list_all_iff HasPrefix_def)
  qed
qed

lemma parsePort_iff:
  assumes "text \<noteq> []"
  shows "parsePort text = Inr port \<longleftrightarrow>
     (\<exists>n. decimalInteger text = Some n \<and> 0 \<le> n \<and> n \<le> 65535 \<and>
          port = (if n = 0 then - 1 else n))"
proof (cases "ParseInt text 32")
  case None
  have "\<not> (\<exists>n. decimalInteger text = Some n \<and> 0 \<le> n \<and> n \<le> 65535)"
  proof
    assume "\<exists>n. decimalInteger text = Some n \<and> 0 \<le> n \<and> n \<le> 65535"
    then obtain n where "decimalInteger text = Some n" "0 \<le> n" "n \<le> 65535" by blast
    then have "ParseInt text 32 = Some n" by (simp add: ParseInt_decimalInteger)
    then show False using None by simp
  qed
  then show ?thesis using assms None by (auto simp: parsePort_def)
next
  case (Some m)
  then have "decimalInteger text = Some m" by (simp add: ParseInt_decimalInteger)
  then show ?thesis using assms Some by (auto simp: parsePort_def)
qed

lemma serveFlag_serve: "serveFlag (''--serve='' @ p) f = f\<lparr>portText := p\<rparr>"
  by (simp add: serveFlag_def HasPrefix_def after_def)

lemma serveFlag_other:
  "\<not> HasPrefix arg ''--serve='' \<Longrightarrow> portText (serveFlag arg f) = portText f"
  by (simp add: serveFlag_def)

lemma fold_serveFlag_other:
  "\<forall>arg \<in> set args. \<not> HasPrefix arg ''--serve='' \<Longrightarrow>
   portText (fold serveFlag args f) = portText f"
  by (induction args arbitrary: f) (simp_all add: serveFlag_other)

lemma portText_last_serve:
  "\<forall>arg \<in> set post. \<not> HasPrefix arg ''--serve='' \<Longrightarrow>
   portText (serveFlagsOf (pre @ [''--serve='' @ p] @ post)) = p"
  unfolding serveFlagsOf_def
  by (simp add: fold_serveFlag_other serveFlag_serve del: append.simps)

text \<open>
  C10. Let \<open>--serve=p\<close> be the last argument of that form, and let the port text be
  what is left of \<open>p\<close> after the host is split off. When the port text is not empty,
  \<^verbatim>\<open>parseServeOptionsImpl\<close> succeeds exactly when the text is a decimal integer
  between 0 and 65535, and the port it returns is that integer, with \<open>-1\<close> in place
  of 0.
\<close>

theorem serve_port_validation:
  assumes "\<forall>arg \<in> set post. \<not> HasPrefix arg ''--serve=''"
    and "hostAndPortText SplitHostPort p = Inr (host, text)"
    and "text \<noteq> []"
  shows "((\<exists>r. parseServeOptionsImpl SplitHostPort (pre @ [''--serve='' @ p] @ post) = Inr r) \<longleftrightarrow>
            (\<exists>n. decimalInteger text = Some n \<and> 0 \<le> n \<and> n \<le> 65535)) \<and>
         (\<forall>opts rest. parseServeOptionsImpl SplitHostPort (pre @ [''--serve='' @ p] @ post) =
              Inr (opts, rest) \<longrightarrow>
            (\<exists>n. decimalInteger text = Some n \<and> 0 \<le> n \<and> n \<le> 65535 \<and>
                 Port opts = (if n = 0 then - 1 else n) \<and> Host opts = host))"
proof -
  let ?args = "pre @ [''--serve='' @ p] @ post"
  have pt: "portText (serveFlagsOf ?args) = p" using assms(1) by (rule portText_last_serve)
  have eq: "parseServeOptionsImpl SplitHostPort ?args =
      (case parsePort text of
         Inl e \<Rightarrow> Inl e
       | Inr port \<Rightarrow>
           Inr (\<lparr>Port = port, Host = host, Servedir = servedir (serveFlagsOf ?args),
                 Keyfile = keyfile (serveFlagsOf ?args), Certfile = certfile (serveFlagsOf ?args),
                 Fallback = fallback (serveFlagsOf ?args),
                 CORS_Origin = corsOrigin (serveFlagsOf ?args)\<rparr>,
                filteredArgs (serveFlagsOf ?args)))"
    unfolding parseServeOptionsImpl_def Let_def pt assms(2) by simp
  show ?thesis
  proof (cases "parsePort text")
    case (Inl e)
    then have "\<not> (\<exists>n. decimalInteger text = Some n \<and> 0 \<le> n \<and> n \<le> 65535)"
      using parsePort_iff[OF assms(3)] by (metis Inl_Inr_False)
    then show ?thesis using eq Inl by simp
  next
    case (Inr port)
    then obtain n where "decimalInteger text = Some n" "0 \<le> n" "n \<le> 65535"
      "port = (if n = 0 then - 1 else n)"
      using parsePort_iff[OF assms(3)] by blast
    then show ?thesis using eq Inr by auto
  qed
qed

lemma sample_decimals:
  "decimalInteger ''0'' = Some 0" "decimalInteger ''65536'' = Some 65536"
  by (simp_all add: decimalInteger_def decimal_def digitVal_def isDigit_def HasPrefix_def)

theorem serve_port_validation_witness:
  "(\<exists>opts rest. parseServeOptionsImpl (\<lambda>hostport. None)
        [''--serve=8000'', ''--serve=0'', ''app.js''] = Inr (opts, rest) \<and> Port opts = - 1) \<and>
   \<not> (\<exists>r. parseServeOptionsImpl (\<lambda>hostport. None) [''--serve=65536''] = Inr r)"
proof -
  have h: "hostAndPortText (\<lambda>hostport. None) ''0'' = Inr ([], ''0'')"
          "hostAndPortText (\<lambda>hostport. None) ''65536'' = Inr ([], ''65536'')"
    by (simp_all add: hostAndPortText_def)
  have p1: "\<forall>arg \<in> set [''app.js'']. \<not> HasPrefix arg ''--serve=''"
    and p2: "\<forall>arg \<in> set ([] :: string list). \<not> HasPrefix arg ''--serve=''"
    by (simp_all add: HasPrefix_def)
  have a: "(\<exists>r. parseServeOptionsImpl (\<lambda>hostport. None)
        ([''--serve=8000''] @ [''--serve='' @ ''0''] @ [''app.js'']) = Inr r)"
    using serve_port_validation[OF p1 h(1), of "[''--serve=8000'']"] sample_decimals(1)
    by simp
  then obtain opts rest where r: "parseServeOptionsImpl (\<lambda>hostport. None)
        ([''--serve=8000''] @ [''--serve='' @ ''0''] @ [''app.js'']) = Inr (opts, rest)"
    by auto
  have "Port opts = - 1"
    using serve_port_validation[OF p1 h(1), of "[''--serve=8000'']"] r sample_decimals(1)
    by auto
  moreover have "\<not> (\<exists>r. parseServeOptionsImpl (\<lambda>hostport. None)
        ([] @ [''--serve='' @ ''65536''] @ []) = Inr r)"
    using serve_port_validation[OF p2 h(2), of "[]"] sample_decimals(2) by simp
  ultimately show ?thesis using r by simp
qed

end
